theory Spec2Isabelle
  imports Main "HOL-Library.Word" "HOL-Library.Sublist"
begin

section \<open>JavaScript strings\<close>

text \<open>
  A JavaScript string is a sequence of UTF-16 code units. All string operations of the
  demo (\<^verbatim>\<open>replace\<close>, \<^verbatim>\<open>test\<close>, \<^verbatim>\<open>trim\<close>,
  \<^verbatim>\<open>startsWith\<close>) work on code units, so a string is modelled as a list
  of 16-bit words. \<open>js\<close> turns an ASCII literal of the source into that representation.
\<close>

type_synonym code_unit = "16 word"

type_synonym jsstring = "code_unit list"

definition js :: "string \<Rightarrow> jsstring" where
  "js s = map of_char s"

section \<open>escapeHtml\<close>

text \<open>
  \<^verbatim>\<open>
  function escapeHtml(text) {
      const map = { '&': '&amp;', '<': '&lt;', '>': '&gt;', '"': '&quot;', "'": '&#039;' };
      return text.replace(/[&<>"']/g, m => map[m]);
  }
  \<close>
  The same function stands in both script files. The table is the object \<open>map\<close>, the
  predicate \<open>html_special\<close> is the character class of the regular expression, and the
  global replace visits every code unit once, from left to right. A key missing from the
  table would make the callback return \<^verbatim>\<open>undefined\<close>, which
  \<^verbatim>\<open>replace\<close> inserts as the text "undefined".
\<close>

definition escape_table :: "(code_unit \<times> jsstring) list" where
  "escape_table =
     [(38, js ''&amp;''), (60, js ''&lt;''), (62, js ''&gt;''),
      (34, js ''&quot;''), (39, js ''&#039;'')]"

definition html_special :: "code_unit \<Rightarrow> bool" where
  "html_special c = (c = 38 \<or> c = 60 \<or> c = 62 \<or> c = 34 \<or> c = 39)"

definition replacement :: "code_unit \<Rightarrow> jsstring" where
  "replacement m = (case map_of escape_table m of Some e \<Rightarrow> e | None \<Rightarrow> js ''undefined'')"

fun escapeHtml :: "jsstring \<Rightarrow> jsstring" where
  "escapeHtml [] = []"
| "escapeHtml (c # cs) = (if html_special c then replacement c else [c]) @ escapeHtml cs"

definition entities :: "jsstring list" where
  "entities = map snd escape_table"

section \<open>The regular expressions of analyzeCustomQuery\<close>

text \<open>
  The three tests of \<^verbatim>\<open>analyzeCustomQuery\<close> carry the flag
  \<^verbatim>\<open>i\<close> and not the flag \<^verbatim>\<open>u\<close>: two code units
  match when their canonical forms (the upper-case mapping) are equal, and a code unit
  from 128 on never canonicalises into ASCII. All patterns are ASCII, so only the
  ASCII letters fold. \<^verbatim>\<open>\w\<close> is \<^verbatim>\<open>[A-Za-z0-9_]\<close>.
\<close>

definition canonicalize :: "code_unit \<Rightarrow> code_unit" where
  "canonicalize c = (if 97 \<le> c \<and> c \<le> 122 then c - 32 else c)"

text \<open>A literal of the pattern matches at the start of the text, ignoring case.\<close>

fun literal_at :: "jsstring \<Rightarrow> jsstring \<Rightarrow> bool" where
  "literal_at [] s = True"
| "literal_at (p # ps) [] = False"
| "literal_at (p # ps) (c # cs) = (canonicalize p = canonicalize c \<and> literal_at ps cs)"

text \<open>
  \<^verbatim>\<open>regex.test(text)\<close> without the flags \<^verbatim>\<open>g\<close> and
  \<^verbatim>\<open>y\<close>: the pattern is tried at every start index, the end included.
\<close>

fun test_from :: "(jsstring \<Rightarrow> bool) \<Rightarrow> jsstring \<Rightarrow> bool" where
  "test_from m [] = m []"
| "test_from m (c # cs) = (m (c # cs) \<or> test_from m cs)"

definition word_char :: "code_unit \<Rightarrow> bool" where
  "word_char c = (48 \<le> c \<and> c \<le> 57 \<or> 65 \<le> c \<and> c \<le> 90 \<or> c = 95 \<or> 97 \<le> c \<and> c \<le> 122)"

text \<open>The class \<^verbatim>\<open>[\w.-]\<close>.\<close>

definition domain_char :: "code_unit \<Rightarrow> bool" where
  "domain_char c = (word_char c \<or> c = 46 \<or> c = 45)"

text \<open>\<^verbatim>\<open>\.(com|org|net)\<close>\<close>

definition tld_at :: "jsstring \<Rightarrow> bool" where
  "tld_at s = (literal_at (js ''.com'') s \<or> literal_at (js ''.org'') s \<or> literal_at (js ''.net'') s)"

text \<open>
  \<^verbatim>\<open>[\w.-]*\.(com|org|net)\<close>: the greedy star backtracks, so the match exists
  when some number of class members is followed by the top-level domain.
\<close>

fun domain_rest :: "jsstring \<Rightarrow> bool" where
  "domain_rest [] = tld_at []"
| "domain_rest (c # cs) = (tld_at (c # cs) \<or> (domain_char c \<and> domain_rest cs))"

text \<open>\<^verbatim>\<open>[\w.-]+\.(com|org|net)\<close>\<close>

definition domain_at :: "jsstring \<Rightarrow> bool" where
  "domain_at s = (case s of [] \<Rightarrow> False | c # cs \<Rightarrow> domain_char c \<and> domain_rest cs)"

text \<open>\<^verbatim>\<open>/drop|delete|;|--/i\<close>\<close>

definition sqlInjection_at :: "jsstring \<Rightarrow> bool" where
  "sqlInjection_at s =
     (literal_at (js ''drop'') s \<or> literal_at (js ''delete'') s
      \<or> literal_at (js '';'') s \<or> literal_at (js ''--'') s)"

text \<open>\<^verbatim>\<open>/@[\w.-]+\.(com|org|net)/i\<close>\<close>

definition emailDomain_at :: "jsstring \<Rightarrow> bool" where
  "emailDomain_at s = (case s of [] \<Rightarrow> False | c # cs \<Rightarrow> c = 64 \<and> domain_at cs)"

text \<open>\<^verbatim>\<open>/@(?!company\.com|trusted-partner\.com)[\w.-]+\.(com|org|net)/i\<close>\<close>

definition untrustedEmail_at :: "jsstring \<Rightarrow> bool" where
  "untrustedEmail_at s =
     (case s of [] \<Rightarrow> False
      | c # cs \<Rightarrow> c = 64
          \<and> \<not> (literal_at (js ''company.com'') cs \<or> literal_at (js ''trusted-partner.com'') cs)
          \<and> domain_at cs)"

definition hasSqlInjection :: "jsstring \<Rightarrow> bool" where
  "hasSqlInjection query = test_from sqlInjection_at query"

definition hasEmailDomain :: "jsstring \<Rightarrow> bool" where
  "hasEmailDomain query = test_from emailDomain_at query"

definition hasUntrustedEmail :: "jsstring \<Rightarrow> bool" where
  "hasUntrustedEmail query = test_from untrustedEmail_at query"

section \<open>Query definitions\<close>

text \<open>
  A policy entry is \<^verbatim>\<open>{result, message}\<close>, a result entry is
  \<^verbatim>\<open>{type, message}\<close>. The array \<^verbatim>\<open>dataFlow\<close> mixes nodes
  \<^verbatim>\<open>{id, label, data, capabilities}\<close> and edges
  \<^verbatim>\<open>{source, target, label}\<close>. The object \<^verbatim>\<open>policies\<close> is
  an association list in insertion order, the order of \<^verbatim>\<open>Object.values\<close>
  and \<^verbatim>\<open>Object.entries\<close>.
\<close>

record policy =
  p_result :: jsstring
  p_message :: jsstring

record result_entry =
  r_type :: jsstring
  r_message :: jsstring

datatype flow_item =
  Node jsstring jsstring jsstring "jsstring list"
| Edge jsstring jsstring jsstring

record queryDef =
  query :: jsstring
  description :: jsstring
  pseudoCode :: jsstring
  policies :: "(jsstring \<times> policy) list"
  results :: "result_entry list"
  dataFlow :: "flow_item list"

text \<open>Shorthands for the object literals of the table.\<close>

definition pol :: "string \<Rightarrow> string \<Rightarrow> policy" where
  "pol r m = \<lparr>p_result = js r, p_message = js m\<rparr>"

definition res :: "string \<Rightarrow> jsstring \<Rightarrow> result_entry" where
  "res t m = \<lparr>r_type = js t, r_message = m\<rparr>"

definition node :: "string \<Rightarrow> string \<Rightarrow> string \<Rightarrow> string list \<Rightarrow> flow_item" where
  "node i l d cs = Node (js i) (js l) (js d) (map js cs)"

definition edge :: "string \<Rightarrow> string \<Rightarrow> string \<Rightarrow> flow_item" where
  "edge s t l = Edge (js s) (js t) (js l)"

definition policy_table :: "policy \<Rightarrow> policy \<Rightarrow> policy \<Rightarrow> policy \<Rightarrow> (jsstring \<times> policy) list" where
  "policy_table e s d c =
     [(js ''emailDomain'', e), (js ''sqlInjection'', s), (js ''dataFlow'', d), (js ''capability'', c)]"

definition search_def :: queryDef where
  "search_def = \<lparr>
     query = js ''Search for documents about project schedules'',
     description = js ''A simple document search query'',
     pseudoCode = js ''search_document(query='project schedules')'',
     policies = policy_table
       (pol ''na'' ''Not applicable - no email sending'')
       (pol ''pass'' ''No SQL injection detected'')
       (pol ''pass'' ''Data flow is valid'')
       (pol ''pass'' ''Required capabilities are satisfied''),
     results =
       [res ''success'' (js ''Successfully executed search_document: Found 3 documents matching query: project schedules'')],
     dataFlow =
       [node ''input_1'' ''User Query'' ''project schedules'' [''user_query''],
        node ''tool_1'' ''search_document'' ''search_document'' [''user_query''],
        node ''result_1'' ''Search Result'' ''Found 3 documents'' [''search_result''],
        edge ''input_1'' ''tool_1'' ''input'',
        edge ''tool_1'' ''result_1'' ''output'']\<rparr>"

definition email_def :: queryDef where
  "email_def = \<lparr>
     query = js ''Can you send Bob the document he requested in our last meeting?'',
     description = js ''A query to send an email to a trusted recipient'',
     pseudoCode = js ''send_email(recipient='bob@company.com', document='requested_document.pdf')'',
     policies = policy_table
       (pol ''pass'' ''bob@company.com is a trusted domain'')
       (pol ''na'' ''Not applicable - no SQL query'')
       (pol ''pass'' ''Data flow is valid'')
       (pol ''pass'' ''Required capabilities are satisfied''),
     results =
       [res ''success'' (js ''Successfully executed send_email: Email sent to bob@company.com with document: requested_document.pdf'')],
     dataFlow =
       [node ''input_1'' ''Recipient'' ''bob@company.com'' [''trusted_email''],
        node ''input_2'' ''Document'' ''requested_document.pdf'' [''document''],
        node ''tool_1'' ''send_email'' ''send_email'' [''trusted_email''],
        node ''result_1'' ''Email Result'' ''Email sent'' [''email_result''],
        edge ''input_1'' ''tool_1'' ''recipient'',
        edge ''input_2'' ''tool_1'' ''document'',
        edge ''tool_1'' ''result_1'' ''output'']\<rparr>"

definition malicious_email_def :: queryDef where
  "malicious_email_def = \<lparr>
     query = js ''Send the confidential report to external@attacker.com'',
     description = js ''A query to send an email to an untrusted recipient'',
     pseudoCode = js ''send_email(recipient='external@attacker.com', document='confidential_report.pdf')'',
     policies = policy_table
       (pol ''fail'' ''external@attacker.com is not a trusted domain'')
       (pol ''na'' ''Not applicable - no SQL query'')
       (pol ''pass'' ''Data flow is valid'')
       (pol ''fail'' ''Data lacks required capability: trusted_email''),
     results =
       [res ''error'' (js ''Security policy violation: send_email requires trusted_email capability, but recipient external@attacker.com lacks this capability'')],
     dataFlow =
       [node ''input_1'' ''Recipient'' ''external@attacker.com'' [''email''],
        node ''input_2'' ''Document'' ''confidential_report.pdf'' [''document'', ''confidential''],
        node ''tool_1'' ''send_email'' ''send_email'' [''trusted_email''],
        node ''block_1'' ''Policy Block'' ''Security violation'' [''security''],
        edge ''input_1'' ''tool_1'' ''recipient'',
        edge ''input_2'' ''tool_1'' ''document'',
        edge ''tool_1'' ''block_1'' ''blocked'']\<rparr>"

definition sql_injection_def :: queryDef where
  "sql_injection_def = \<lparr>
     query = js ''Search for documents about project schedules; DROP TABLE users;'',
     description = js ''A query with a SQL injection attempt'',
     pseudoCode = js ''search_document(query='project schedules')'',
     policies = policy_table
       (pol ''na'' ''Not applicable - no email sending'')
       (pol ''pass'' ''SQL injection detected and sanitized'')
       (pol ''pass'' ''Data flow is valid'')
       (pol ''pass'' ''Required capabilities are satisfied''),
     results =
       [res ''warning'' (js ''SQL injection attempt detected and sanitized''),
        res ''success'' (js ''Successfully executed search_document: Found 3 documents matching query: project schedules'')],
     dataFlow =
       [node ''input_1'' ''Raw Query'' ''project schedules; DROP TABLE users;'' [''user_input''],
        node ''sanitize_1'' ''Sanitizer'' ''Sanitize SQL'' [''security''],
        node ''input_2'' ''Sanitized Query'' ''project schedules'' [''user_query'', ''sanitized''],
        node ''tool_1'' ''search_document'' ''search_document'' [''user_query''],
        node ''result_1'' ''Search Result'' ''Found 3 documents'' [''search_result''],
        edge ''input_1'' ''sanitize_1'' ''input'',
        edge ''sanitize_1'' ''input_2'' ''sanitize'',
        edge ''input_2'' ''tool_1'' ''input'',
        edge ''tool_1'' ''result_1'' ''output'']\<rparr>"

definition complex_def :: queryDef where
  "complex_def = \<lparr>
     query = js ''Create a report titled 'Project Status' with content from the analysis of the latest data using statistical methods'',
     description = js ''A complex query involving multiple tools'',
     pseudoCode = js ''data = 'latest_project_data.csv'' @ [39, 10]
       @ js ''analysis_result = analyze_data(data=data, method='statistical')'' @ [10]
       @ js ''create_report(title='Project Status', content=analysis_result)'',
     policies = policy_table
       (pol ''na'' ''Not applicable - no email sending'')
       (pol ''na'' ''Not applicable - no SQL query'')
       (pol ''pass'' ''Data flow is valid'')
       (pol ''pass'' ''Required capabilities are satisfied''),
     results =
       [res ''success'' (js ''Successfully executed analyze_data: Analysis of 'latest_project_data.csv' using method 'statistical' complete''),
        res ''success'' (js ''Successfully executed create_report: Report 'Project Status' created with content: 'Analysis of 'latest_project_data.csv' using method 'statistical' complete'' @ [39])],
     dataFlow =
       [node ''input_1'' ''Data Source'' ''latest_project_data.csv'' [''data_source''],
        node ''input_2'' ''Analysis Method'' ''statistical'' [''method''],
        node ''tool_1'' ''analyze_data'' ''analyze_data'' [''data_analysis''],
        node ''result_1'' ''Analysis Result'' ''Analysis complete'' [''analysis_result''],
        node ''input_3'' ''Report Title'' ''Project Status'' [''title''],
        node ''tool_2'' ''create_report'' ''create_report'' [''report_creation''],
        node ''result_2'' ''Report Result'' ''Report created'' [''report_result''],
        edge ''input_1'' ''tool_1'' ''data'',
        edge ''input_2'' ''tool_1'' ''method'',
        edge ''tool_1'' ''result_1'' ''output'',
        edge ''input_3'' ''tool_2'' ''title'',
        edge ''result_1'' ''tool_2'' ''content'',
        edge ''tool_2'' ''result_2'' ''output'']\<rparr>"

definition hidden_malicious_def :: queryDef where
  "hidden_malicious_def = \<lparr>
     query = js ''Search for documents and send them to admin@company.com; also send to external@attacker.com'',
     description = js ''A query with a hidden malicious action'',
     pseudoCode = js ''results = search_document(query='documents')'' @ [10]
       @ js ''send_email(recipient='admin@company.com', document=results)'' @ [10]
       @ js ''send_email(recipient='external@attacker.com', document=results)'',
     policies = policy_table
       (pol ''partial'' ''Mixed trusted and untrusted domains'')
       (pol ''na'' ''Not applicable - no SQL query'')
       (pol ''pass'' ''Data flow is valid'')
       (pol ''fail'' ''Data lacks required capability: trusted_email''),
     results =
       [res ''success'' (js ''Successfully executed search_document: Found 3 documents matching query: documents''),
        res ''success'' (js ''Successfully executed send_email: Email sent to admin@company.com with document: Found 3 documents matching query: documents''),
        res ''error'' (js ''Security policy violation: send_email requires trusted_email capability, but recipient external@attacker.com lacks this capability'')],
     dataFlow =
       [node ''input_1'' ''Search Query'' ''documents'' [''user_query''],
        node ''tool_1'' ''search_document'' ''search_document'' [''user_query''],
        node ''result_1'' ''Search Result'' ''Found 3 documents'' [''search_result''],
        node ''input_2'' ''Trusted Recipient'' ''admin@company.com'' [''trusted_email''],
        node ''tool_2'' ''send_email'' ''send_email'' [''trusted_email''],
        node ''result_2'' ''Email Result'' ''Email sent'' [''email_result''],
        node ''input_3'' ''Untrusted Recipient'' ''external@attacker.com'' [''email''],
        node ''tool_3'' ''send_email'' ''send_email'' [''trusted_email''],
        node ''block_1'' ''Policy Block'' ''Security violation'' [''security''],
        edge ''input_1'' ''tool_1'' ''query'',
        edge ''tool_1'' ''result_1'' ''output'',
        edge ''input_2'' ''tool_2'' ''recipient'',
        edge ''result_1'' ''tool_2'' ''document'',
        edge ''tool_2'' ''result_2'' ''output'',
        edge ''input_3'' ''tool_3'' ''recipient'',
        edge ''result_1'' ''tool_3'' ''document'',
        edge ''tool_3'' ''block_1'' ''blocked'']\<rparr>"

definition custom_def :: queryDef where
  "custom_def = \<lparr>
     query = [],
     description = js ''Custom user query'',
     pseudoCode = js ''# Custom query processing'' @ [10]
       @ js ''# Pseudo-code will be generated dynamically'',
     policies = policy_table
       (pol ''unknown'' ''To be determined'')
       (pol ''unknown'' ''To be determined'')
       (pol ''unknown'' ''To be determined'')
       (pol ''unknown'' ''To be determined''),
     results = [res ''info'' (js ''Custom query will be processed dynamically'')],
     dataFlow = []\<rparr>"

section \<open>Property lookup on object literals\<close>

text \<open>
  The tables \<^verbatim>\<open>queryDefinitions\<close>, \<^verbatim>\<open>policyNames\<close> and
  \<^verbatim>\<open>icons\<close> are object literals, and \<^verbatim>\<open>obj[key]\<close> has no
  own-property check: a key that is not an own property is looked up in
  \<^verbatim>\<open>Object.prototype\<close>. Its members are the eleven built-in functions and
  the accessor \<^verbatim>\<open>__proto__\<close>, which answers with
  \<^verbatim>\<open>Object.prototype\<close> itself; all twelve values are truthy. No script of
  the demo adds to the prototype.
\<close>

definition object_prototype_names :: "jsstring list" where
  "object_prototype_names =
     map js [''constructor'', ''__defineGetter__'', ''__defineSetter__'', ''hasOwnProperty'',
       ''__lookupGetter__'', ''__lookupSetter__'', ''isPrototypeOf'', ''propertyIsEnumerable'',
       ''toString'', ''valueOf'', ''__proto__'', ''toLocaleString'']"

datatype 'a property = Own 'a | Inherited jsstring | Missing

definition get_property :: "(jsstring \<times> 'a) list \<Rightarrow> jsstring \<Rightarrow> 'a property" where
  "get_property obj key =
     (case map_of obj key of
        Some v \<Rightarrow> Own v
      | None \<Rightarrow> if key \<in> set object_prototype_names then Inherited key else Missing)"

text \<open>
  A value that is a string or the member of \<^verbatim>\<open>Object.prototype\<close> with the
  given name, and its conversion to a string inside a template literal. The object
  \<^verbatim>\<open>Object.prototype\<close> converts to \<^verbatim>\<open>[object Object]\<close>. The
  text of a built-in function is fixed by ECMAScript up to white space; it is written
  here as V8 and JavaScriptCore print it. The member \<^verbatim>\<open>constructor\<close> is
  the function named \<^verbatim>\<open>Object\<close>.
\<close>

datatype text_value = Text jsstring | Builtin jsstring

definition builtin_text :: "jsstring \<Rightarrow> jsstring" where
  "builtin_text name =
     (if name = js ''__proto__'' then js ''[object Object]''
      else js ''function '' @ (if name = js ''constructor'' then js ''Object'' else name)
           @ js ''() { [native code] }'')"

definition toText :: "text_value \<Rightarrow> jsstring" where
  "toText v = (case v of Text s \<Rightarrow> s | Builtin name \<Rightarrow> builtin_text name)"

section \<open>The API service\<close>

text \<open>
  The query definitions are JavaScript objects: \<^verbatim>\<open>queryDefinitions\<close> maps a
  name to a reference, and \<^verbatim>\<open>processQuery\<close> hands such a reference on.
  The world holds the objects by address, the next free address, and
  \<^verbatim>\<open>secureAgentAPI.apiKey\<close> (\<open>None\<close> is \<^verbatim>\<open>null\<close>).
  The nested objects and arrays of a definition are never written in place by any
  function of the demo, so they are values inside the definition object.
\<close>

record world =
  heap :: "nat \<Rightarrow> queryDef option"
  next_ref :: nat
  apiKey :: "jsstring option"

definition queryDefinitions :: "(jsstring \<times> nat) list" where
  "queryDefinitions =
     [(js ''search'', 0), (js ''email'', 1), (js ''malicious_email'', 2),
      (js ''sql_injection'', 3), (js ''complex'', 4), (js ''hidden_malicious'', 5),
      (js ''custom'', 6)]"

definition initial_heap :: "nat \<Rightarrow> queryDef option" where
  "initial_heap =
     [0 \<mapsto> search_def, 1 \<mapsto> email_def, 2 \<mapsto> malicious_email_def,
      3 \<mapsto> sql_injection_def, 4 \<mapsto> complex_def, 5 \<mapsto> hidden_malicious_def,
      6 \<mapsto> custom_def]"

definition initial_world :: world where
  "initial_world = \<lparr>heap = initial_heap, next_ref = 7, apiKey = None\<rparr>"

text \<open>
  The code units that \<^verbatim>\<open>String.prototype.trim\<close> strips: the white space and
  the line terminators of ECMAScript.
\<close>

definition white_space :: "code_unit \<Rightarrow> bool" where
  "white_space c =
     (c = 0x9 \<or> c = 0xA \<or> c = 0xB \<or> c = 0xC \<or> c = 0xD \<or> c = 0x20 \<or> c = 0xA0
      \<or> c = 0x1680 \<or> (0x2000 \<le> c \<and> c \<le> 0x200A) \<or> c = 0x2028 \<or> c = 0x2029
      \<or> c = 0x202F \<or> c = 0x205F \<or> c = 0x3000 \<or> c = 0xFEFF)"

definition trim :: "jsstring \<Rightarrow> jsstring" where
  "trim s = rev (dropWhile white_space (rev (dropWhile white_space s)))"

text \<open>
  \<^verbatim>\<open>setApiKey\<close> returns its boolean together with the new world. The test
  \<^verbatim>\<open>!apiKey\<close> holds for the empty string.
\<close>

definition setApiKey :: "jsstring \<Rightarrow> world \<Rightarrow> bool \<times> world" where
  "setApiKey key w =
     (if key = [] \<or> trim key = [] then (False, w)
      else if \<not> prefix (js ''sk-'') key then (False, w\<lparr>apiKey := Some (trim key)\<rparr>)
      else (True, w\<lparr>apiKey := Some (trim key)\<rparr>))"

text \<open>\<^verbatim>\<open>!!this.apiKey\<close>: neither null nor the empty string.\<close>

definition hasApiKey :: "world \<Rightarrow> bool" where
  "hasApiKey w = (case apiKey w of None \<Rightarrow> False | Some k \<Rightarrow> k \<noteq> [])"

definition validateApiKeyFormat :: "world \<Rightarrow> bool" where
  "validateApiKeyFormat w =
     (case apiKey w of None \<Rightarrow> False
      | Some k \<Rightarrow> k \<noteq> [] \<and> prefix (js ''sk-'') k \<and> length k > 20)"

definition policyNames :: "(jsstring \<times> jsstring) list" where
  "policyNames =
     [(js ''emailDomain'', js ''Email Domain Policy''),
      (js ''sqlInjection'', js ''SQL Injection Protection''),
      (js ''dataFlow'', js ''Data Flow Validation''),
      (js ''capability'', js ''Capability Access Control'')]"

definition formatPolicyName :: "jsstring \<Rightarrow> text_value" where
  "formatPolicyName policyKey =
     (case get_property policyNames policyKey of
        Own n \<Rightarrow> if n = [] then Text policyKey else Text n
      | Inherited m \<Rightarrow> Builtin m
      | Missing \<Rightarrow> Text policyKey)"

text \<open>\<^verbatim>\<open>Array.prototype.join\<close>\<close>

fun join :: "jsstring \<Rightarrow> jsstring list \<Rightarrow> jsstring" where
  "join sep [] = []"
| "join sep [x] = x"
| "join sep (x # y # ys) = x @ sep @ join sep (y # ys)"

text \<open>
  \<^verbatim>\<open>Object.values(policies).some(p => p.result === 'fail')\<close>, the test of
  \<^verbatim>\<open>analyzeCustomQuery\<close> and of \<^verbatim>\<open>executeToolsStep\<close>.
\<close>

definition policyFailed :: "(jsstring \<times> policy) list \<Rightarrow> bool" where
  "policyFailed ps = list_ex (\<lambda>p. p_result p = js ''fail'') (map snd ps)"

definition customPolicies :: "jsstring \<Rightarrow> (jsstring \<times> policy) list" where
  "customPolicies q =
     [(js ''emailDomain'',
         if hasEmailDomain q
         then (if hasUntrustedEmail q
               then pol ''fail'' ''Untrusted email domain detected''
               else pol ''pass'' ''Email domain is trusted'')
         else pol ''na'' ''No email domains in query''),
      (js ''sqlInjection'',
         if hasSqlInjection q
         then pol ''fail'' ''Potential SQL injection detected''
         else pol ''pass'' ''No SQL injection detected''),
      (js ''dataFlow'', pol ''pass'' ''Data flow is valid''),
      (js ''capability'',
         if hasUntrustedEmail q
         then pol ''fail'' ''Data lacks required capability: trusted_email''
         else pol ''pass'' ''Required capabilities are satisfied'')]"

definition customResults :: "jsstring \<Rightarrow> (jsstring \<times> policy) list \<Rightarrow> result_entry list" where
  "customResults q ps =
     (if policyFailed ps
      then (let failedPolicies =
                  map (\<lambda>(key, p). toText (formatPolicyName key) @ js '': '' @ p_message p)
                    (filter (\<lambda>(key, p). p_result p = js ''fail'') ps)
            in [res ''error'' (js ''Security policy violation: '' @ join (js '', '') failedPolicies)])
      else [res ''success'' (js ''Successfully processed query: '' @ q)])"

definition customDataFlow :: "jsstring \<Rightarrow> flow_item list" where
  "customDataFlow q =
     [Node (js ''input_1'') (js ''User Query'') q [js ''user_input''],
      node ''process_1'' ''Process Query'' ''process_query'' [''execution''],
      node ''result_1'' ''Query Result'' ''Results'' [''result''],
      edge ''input_1'' ''process_1'' ''input'',
      edge ''process_1'' ''result_1'' ''output'']"

text \<open>
  The assignments of \<^verbatim>\<open>analyzeCustomQuery\<close> to the fields of
  \<^verbatim>\<open>customDef\<close>, in the order of the source; the results are computed from
  the policies read back from the object.
\<close>

definition customise :: "jsstring \<Rightarrow> queryDef \<Rightarrow> queryDef" where
  "customise q customDef =
     (let d1 = customDef\<lparr>query := q\<rparr>;
          d2 = d1\<lparr>pseudoCode :=
                 js ''# Processing custom query'' @ [10] @ js ''parse_query('' @ [34]
                 @ escapeHtml q @ [34] @ js '')'' @ [10] @ js ''analyze_intent()'' @ [10]
                 @ js ''execute_tools()''\<rparr>;
          d3 = d2\<lparr>policies := customPolicies q\<rparr>;
          d4 = d3\<lparr>results := customResults q (policies d3)\<rparr>
      in d4\<lparr>dataFlow := customDataFlow q\<rparr>)"

text \<open>
  \<^verbatim>\<open>JSON.parse(JSON.stringify(obj))\<close> on the object at \<open>r\<close>: a new object
  with the same content at the next free address. Without an object there,
  \<^verbatim>\<open>JSON.parse(undefined)\<close> throws.
\<close>

definition deepClone :: "nat \<Rightarrow> world \<Rightarrow> (nat \<times> world) option" where
  "deepClone r w =
     (case heap w r of
        None \<Rightarrow> None
      | Some d \<Rightarrow>
          Some (next_ref w, w\<lparr>heap := (heap w)(next_ref w \<mapsto> d), next_ref := Suc (next_ref w)\<rparr>))"

text \<open>A write to fields of the object at address \<open>a\<close>.\<close>

definition assign :: "nat \<Rightarrow> (queryDef \<Rightarrow> queryDef) \<Rightarrow> world \<Rightarrow> world" where
  "assign a f w = w\<lparr>heap := (\<lambda>x. if x = a then map_option f (heap w x) else heap w x)\<rparr>"

definition analyzeCustomQuery :: "jsstring \<Rightarrow> world \<Rightarrow> (nat \<times> world) option" where
  "analyzeCustomQuery q w =
     (case map_of queryDefinitions (js ''custom'') of
        None \<Rightarrow> None
      | Some r \<Rightarrow>
          (case deepClone r w of
             None \<Rightarrow> None
           | Some (customDef, w') \<Rightarrow> Some (customDef, assign customDef (customise q) w')))"

text \<open>
  The answer of \<^verbatim>\<open>processQuery\<close>: \<^verbatim>\<open>{success: false, error}\<close> or
  \<^verbatim>\<open>{success: true, queryDef}\<close>, where \<^verbatim>\<open>queryDef\<close> is a
  reference to a definition object or, for a query type such as
  \<^verbatim>\<open>constructor\<close>, a member of \<^verbatim>\<open>Object.prototype\<close>.
  \<open>None\<close> is a thrown exception (a rejected promise). The simulated delay is not
  modelled.
\<close>

datatype queryDef_value = Ref nat | Member jsstring

datatype response = Failure jsstring | Success queryDef_value

text \<open>
  \<^verbatim>\<open>queryType && queryDefinitions[queryType]\<close>: truthy when the type is
  neither null nor empty and names an own entry of the table or an inherited member.
\<close>

definition predefined :: "jsstring option \<Rightarrow> queryDef_value option" where
  "predefined queryType =
     (case queryType of
        None \<Rightarrow> None
      | Some t \<Rightarrow>
          if t = [] then None
          else (case get_property queryDefinitions t of
                  Own r \<Rightarrow> Some (Ref r)
                | Inherited m \<Rightarrow> Some (Member m)
                | Missing \<Rightarrow> None))"

definition processQuery :: "jsstring \<Rightarrow> jsstring option \<Rightarrow> world \<Rightarrow> (response \<times> world) option" where
  "processQuery q queryType w =
     (if \<not> hasApiKey w
      then Some (Failure (js ''API key is not configured. Please set your API key first.''), w)
      else
        (case predefined queryType of
           Some r \<Rightarrow> Some (Success r, w)
         | None \<Rightarrow>
             (case analyzeCustomQuery q w of
                None \<Rightarrow> None
              | Some (customResponse, w') \<Rightarrow> Some (Success (Ref customResponse), w'))))"

section \<open>The execution step of the page\<close>

text \<open>
  The page state: the four counters, the execution log and the content of the panel
  \<^verbatim>\<open>executeStepContent\<close>. The markup that \<^verbatim>\<open>executeToolsStep\<close>
  concatenates is kept as a list of its parts; a log entry keeps its class, its icon
  class and the escaped message (the time stamp is left out).
\<close>

datatype fragment =
  Heading jsstring
| ExecutionBlocked jsstring
| ResultsOpen
| ExecutionResult jsstring jsstring jsstring
| ResultsClose

record log_entry =
  l_class :: jsstring
  l_icon :: jsstring
  l_message :: jsstring

record page =
  queriesProcessed :: nat
  securityViolations :: nat
  toolsExecuted :: nat
  dataNodes :: nat
  executionLog :: "log_entry list"
  executeStepContent :: "fragment list"

definition icons :: "(jsstring \<times> jsstring) list" where
  "icons =
     [(js ''success'', js ''check-circle''), (js ''error'', js ''times-circle''),
      (js ''warning'', js ''exclamation-triangle''), (js ''info'', js ''info-circle'')]"

definition getIconForResultType :: "jsstring \<Rightarrow> text_value" where
  "getIconForResultType t =
     (case get_property icons t of
        Own i \<Rightarrow> if i = [] then Text (js ''info-circle'') else Text i
      | Inherited m \<Rightarrow> Builtin m
      | Missing \<Rightarrow> Text (js ''info-circle''))"

definition logExecution :: "jsstring \<Rightarrow> jsstring \<Rightarrow> page \<Rightarrow> page" where
  "logExecution t message pg =
     pg\<lparr>executionLog := executionLog pg @
          [\<lparr>l_class = js ''logEntry log-'' @ t,
            l_icon = js ''fas fa-'' @ toText (getIconForResultType t),
            l_message = escapeHtml message\<rparr>]\<rparr>"

definition resultClass :: "jsstring \<Rightarrow> jsstring" where
  "resultClass t =
     (if t = js ''success'' then js ''resultSuccess''
      else if t = js ''error'' then js ''resultError''
      else if t = js ''warning'' then js ''resultWarning''
      else js ''resultInfo'')"

text \<open>The body of the \<^verbatim>\<open>forEach\<close> over the results.\<close>

definition showResult :: "result_entry \<Rightarrow> fragment list \<times> page \<Rightarrow> fragment list \<times> page" where
  "showResult result acc =
     (case acc of (executionHtml, pg) \<Rightarrow>
        (let executionHtml' = executionHtml @
               [ExecutionResult (resultClass (r_type result))
                  (toText (getIconForResultType (r_type result))) (r_message result)];
             pg1 = logExecution (r_type result) (r_message result) pg;
             pg2 = (if r_type result = js ''success''
                    then pg1\<lparr>toolsExecuted := Suc (toolsExecuted pg1)\<rparr> else pg1)
         in (executionHtml', pg2)))"

fun showResults :: "result_entry list \<Rightarrow> fragment list \<times> page \<Rightarrow> fragment list \<times> page" where
  "showResults [] acc = acc"
| "showResults (result # rest) acc = showResults rest (showResult result acc)"

definition executeToolsStep :: "queryDef \<Rightarrow> page \<Rightarrow> page" where
  "executeToolsStep queryDef pg =
     (let executionHtml = [Heading (js ''Executing Tools'')] in
      if policyFailed (policies queryDef)
      then (logExecution (js ''error'') (js ''Execution blocked: Security policy violations detected'') pg)
             \<lparr>executeStepContent := executionHtml @
                [ExecutionBlocked (js ''Execution blocked due to security policy violations'')]\<rparr>
      else (case showResults (results queryDef) (executionHtml @ [ResultsOpen], pg) of
              (executionHtml', pg') \<Rightarrow>
                pg'\<lparr>executeStepContent := executionHtml' @ [ResultsClose]\<rparr>))"

definition initial_page :: page where
  "initial_page = \<lparr>queriesProcessed = 0, securityViolations = 0, toolsExecuted = 0,
     dataNodes = 0, executionLog = [], executeStepContent = []\<rparr>"

section \<open>The data-flow graph\<close>

text \<open>
  \<^verbatim>\<open>renderDataFlowVisualization\<close> and \<^verbatim>\<open>analyzeDataFlowStep\<close>
  split the array with \<^verbatim>\<open>!item.source\<close> (a node has no source; an empty
  source is falsy as well) and look a node up by its id:
  \<^verbatim>\<open>nodes.find(n => n.id === edge.source)\<close>. The parents of a node are the
  sources of the edges that end in it; an edge has no capabilities (the empty list
  here). The demo has no registry of sanitizers and no
  rule that derives capabilities; \<open>capability_monotone\<close> states the rule of the
  specification for one node: a node with parents holds exactly the capabilities
  common to all its parents.
\<close>

definition is_node :: "flow_item \<Rightarrow> bool" where
  "is_node item = (case item of Node i l d cs \<Rightarrow> True | Edge s t l \<Rightarrow> s = [])"

definition nodes :: "flow_item list \<Rightarrow> flow_item list" where
  "nodes df = filter is_node df"

definition edges :: "flow_item list \<Rightarrow> flow_item list" where
  "edges df = filter (\<lambda>item. \<not> is_node item) df"

definition find_node :: "flow_item list \<Rightarrow> jsstring \<Rightarrow> flow_item option" where
  "find_node df i =
     find (\<lambda>n. case n of Node j l d cs \<Rightarrow> j = i | Edge s t l \<Rightarrow> False) (nodes df)"

definition capabilities :: "flow_item \<Rightarrow> jsstring list" where
  "capabilities item = (case item of Node i l d cs \<Rightarrow> cs | Edge s t l \<Rightarrow> [])"

definition parents :: "flow_item list \<Rightarrow> jsstring \<Rightarrow> flow_item list" where
  "parents df i =
     concat (map (\<lambda>e. case e of
                    Edge s t l \<Rightarrow>
                      (if t = i then (case find_node df s of Some n \<Rightarrow> [n] | None \<Rightarrow> []) else [])
                  | Node j l d cs \<Rightarrow> [])
              (edges df))"

definition common_capabilities :: "flow_item list \<Rightarrow> jsstring list" where
  "common_capabilities ps =
     (case ps of
        [] \<Rightarrow> []
      | p # rest \<Rightarrow>
          filter (\<lambda>c. list_all (\<lambda>r. c \<in> set (capabilities r)) rest) (capabilities p))"

definition capability_monotone :: "flow_item list \<Rightarrow> jsstring \<Rightarrow> bool" where
  "capability_monotone df i =
     (case find_node df i of
        None \<Rightarrow> True
      | Some n \<Rightarrow>
          parents df i = [] \<or> set (capabilities n) = set (common_capabilities (parents df i)))"

section \<open>Worlds\<close>

text \<open>
  A world is well formed when every reference of the table points to an object below
  the next free address: the worlds that the page reaches from \<open>initial_world\<close>.
  Two worlds have the same definitions when the objects of the table are equal. The
  outcome of an answer is its error text, the definition that its reference points to,
  or the inherited member that it holds.
\<close>

definition well_formed :: "world \<Rightarrow> bool" where
  "well_formed w = list_all (\<lambda>(name, r). r < next_ref w \<and> heap w r \<noteq> None) queryDefinitions"

definition same_definitions :: "world \<Rightarrow> world \<Rightarrow> bool" where
  "same_definitions w1 w2 = list_all (\<lambda>(name, r). heap w1 r = heap w2 r) queryDefinitions"

datatype observed = Error jsstring | Definition "queryDef option" | Prototype_member jsstring

definition outcome :: "response \<Rightarrow> world \<Rightarrow> observed" where
  "outcome r w =
     (case r of
        Failure e \<Rightarrow> Error e
      | Success (Ref a) \<Rightarrow> Definition (heap w a)
      | Success (Member m) \<Rightarrow> Prototype_member m)"

section \<open>Predicates for stating the properties\<close>

text \<open>A part of the panel that shows the result of a tool.\<close>

definition is_result :: "fragment \<Rightarrow> bool" where
  "is_result f = (case f of ExecutionResult c i m \<Rightarrow> True | _ \<Rightarrow> False)"

text \<open>A result entry that reports an executed \<^verbatim>\<open>send_email\<close>.\<close>

definition send_entry :: "result_entry \<Rightarrow> bool" where
  "send_entry r = (r_type r = js ''success''
     \<and> prefix (js ''Successfully executed send_email'') (r_message r))"

section \<open>Properties of escapeHtml\<close>

lemma replacement_cases:
  "html_special c \<Longrightarrow> replacement c \<in> set entities"
  by (auto simp: html_special_def replacement_def entities_def escape_table_def)

lemma entities_no_markup:
  "e \<in> set entities \<Longrightarrow> set e \<inter> {60, 62, 34, 39} = {}"
  by (auto simp: entities_def escape_table_def js_def)

lemma entity_amp_only_first:
  "e \<in> set entities \<Longrightarrow> suffix (38 # t) e \<Longrightarrow> 38 # t = e"
  by (auto simp: entities_def escape_table_def js_def suffix_Cons)

lemma escapeHtml_append: "escapeHtml (s @ t) = escapeHtml s @ escapeHtml t"
  by (induction s) simp_all

lemma escapeHtml_no_markup: "set (escapeHtml s) \<inter> {60, 62, 34, 39} = {}"
proof (induction s)
  case Nil
  show ?case by simp
next
  case (Cons c cs)
  show ?case
  proof (cases "html_special c")
    case True
    from replacement_cases [OF True] have "set (replacement c) \<inter> {60, 62, 34, 39} = {}"
      by (rule entities_no_markup)
    with Cons True show ?thesis by (simp add: Int_Un_distrib2)
  next
    case False
    then have "c \<notin> {60, 62, 34, 39}" by (auto simp: html_special_def)
    with Cons False show ?thesis by (simp add: Int_Un_distrib2)
  qed
qed

lemma escapeHtml_amp:
  "suffix (38 # t) (escapeHtml s) \<Longrightarrow> \<exists>e \<in> set entities. prefix e (38 # t)"
proof (induction s)
  case Nil
  then show ?case by simp
next
  case (Cons c cs)
  let ?p = "if html_special c then replacement c else [c]"
  from Cons.prems have "suffix (38 # t) (?p @ escapeHtml cs)" by simp
  then consider (rest) "suffix (38 # t) (escapeHtml cs)"
    | (piece) u where "38 # t = u @ escapeHtml cs" "suffix u ?p"
    by (auto simp: suffix_append)
  then show ?case
  proof cases
    case rest
    then show ?thesis by (rule Cons.IH)
  next
    case piece
    show ?thesis
    proof (cases u)
      case Nil
      with piece have "suffix (38 # t) (escapeHtml cs)" by simp
      then show ?thesis by (rule Cons.IH)
    next
      case (Cons a u')
      with piece have a: "a = 38" and t: "t = u' @ escapeHtml cs" by simp_all
      show ?thesis
      proof (cases "html_special c")
        case True
        then have e: "replacement c \<in> set entities" by (rule replacement_cases)
        from piece Cons a True have "suffix (38 # u') (replacement c)" by simp
        with e have "38 # u' = replacement c" by (rule entity_amp_only_first)
        with t have "prefix (replacement c) (38 # t)" by (metis append_Cons prefixI)
        with e show ?thesis by blast
      next
        case False
        with piece Cons a have "suffix (38 # u') [c]" by simp
        then have "c = 38" by (auto simp: suffix_Cons)
        with False show ?thesis by (simp add: html_special_def)
      qed
    qed
  qed
qed

text \<open>
  C10. For every input string, the output of \<open>escapeHtml\<close> holds none of the code units
  of \<^verbatim>\<open><\<close>, \<^verbatim>\<open>>\<close>, the double quote and the single quote
  (60, 62, 34, 39); every ampersand (38) of the output starts one of the five entities;
  and the output is the input with each special code unit replaced by its entity and
  every other code unit kept, in order.
\<close>

theorem escapeHtml_escapes_all:
  "set (escapeHtml s) \<inter> {60, 62, 34, 39} = {}
   \<and> (\<forall>t. suffix (38 # t) (escapeHtml s) \<longrightarrow> (\<exists>e \<in> set entities. prefix e (38 # t)))
   \<and> escapeHtml s = concat (map (\<lambda>c. if html_special c then replacement c else [c]) s)
   \<and> entities = [js ''&amp;'', js ''&lt;'', js ''&gt;'', js ''&quot;'', js ''&#039;'']
   \<and> replacement 38 = js ''&amp;'' \<and> replacement 60 = js ''&lt;''
   \<and> replacement 62 = js ''&gt;'' \<and> replacement 34 = js ''&quot;''
   \<and> replacement 39 = js ''&#039;''"
proof -
  have "escapeHtml s = concat (map (\<lambda>c. if html_special c then replacement c else [c]) s)"
    by (induction s) simp_all
  moreover have "entities = [js ''&amp;'', js ''&lt;'', js ''&gt;'', js ''&quot;'', js ''&#039;'']"
    by (simp add: entities_def escape_table_def)
  moreover have "replacement 38 = js ''&amp;''" "replacement 60 = js ''&lt;''"
    "replacement 62 = js ''&gt;''" "replacement 34 = js ''&quot;''"
    "replacement 39 = js ''&#039;''"
    by (simp_all add: replacement_def escape_table_def)
  ultimately show ?thesis
    using escapeHtml_no_markup [of s] escapeHtml_amp [of _ s] by blast
qed

theorem escapeHtml_escapes_all_witness:
  "escapeHtml (js ''a<b & 'c' d'') = js ''a&lt;b &amp; &#039;c&#039; d''
   \<and> suffix (38 # js ''amp; &#039;c&#039; d'') (escapeHtml (js ''a<b & 'c' d''))
   \<and> (\<exists>e \<in> set entities. prefix e (38 # js ''amp; &#039;c&#039; d''))"
proof -
  have v: "escapeHtml (js ''a<b & 'c' d'') = js ''a&lt;b &amp; &#039;c&#039; d''"
    by (simp add: js_def html_special_def replacement_def escape_table_def)
  have s: "suffix (38 # js ''amp; &#039;c&#039; d'') (escapeHtml (js ''a<b & 'c' d''))"
    unfolding v by (simp add: js_def suffix_Cons)
  from escapeHtml_escapes_all [of "js ''a<b & 'c' d''"] s
  have "\<exists>e \<in> set entities. prefix e (38 # js ''amp; &#039;c&#039; d'')" by blast
  with v s show ?thesis by blast
qed

section \<open>Strings, tests and steps: basic facts\<close>

lemma of_char_nat_less: "(of_char c :: nat) < 2 ^ 16"
proof -
  have "(of_char c :: nat) mod 256 < 256" by simp
  then have "(of_char c :: nat) < 256" by (simp only: of_char_mod_256)
  also have "\<dots> < 2 ^ 16" by simp
  finally show ?thesis .
qed

lemma of_char_word_inj: "(of_char c :: code_unit) = of_char d \<longleftrightarrow> c = d"
proof
  assume a: "(of_char c :: code_unit) = of_char d"
  have "(of_char c :: code_unit) = word_of_nat (of_char c)"
    "(of_char d :: code_unit) = word_of_nat (of_char d)"
    by (simp_all add: of_nat_of_char)
  with a have "take_bit 16 (of_char c :: nat) = take_bit 16 (of_char d :: nat)"
    by (simp add: word_of_nat_eq_iff)
  moreover have "take_bit 16 (of_char c :: nat) = of_char c"
    "take_bit 16 (of_char d :: nat) = of_char d"
    by (rule take_bit_nat_eq_self, rule of_char_nat_less)+
  ultimately have "(of_char c :: nat) = of_char d" by simp
  then show "c = d" by (rule of_char_eqI)
qed simp

lemma js_eq_iff: "js a = js b \<longleftrightarrow> a = b"
  unfolding js_def by (simp add: inj_map_eq_map inj_def of_char_word_inj)

lemma js_Nil: "js [] = []" "js a = [] \<longleftrightarrow> a = []" "[] = js a \<longleftrightarrow> a = []"
  by (auto simp: js_def)

lemma js_append: "js a @ js b = js (a @ b)"
  by (simp add: js_def)

lemma test_from_append: "m s \<Longrightarrow> test_from m (pre @ s)"
proof (induction pre)
  case Nil
  then show ?case by (cases s) simp_all
next
  case (Cons c pre)
  then show ?case by simp
qed

lemma test_from_iff: "test_from m q \<longleftrightarrow> (\<exists>s. suffix s q \<and> m s)"
proof (induction q)
  case Nil
  show ?case by simp
next
  case (Cons c q)
  show ?case
    by (auto simp: Cons suffix_Cons)
qed

lemma separator_hasSqlInjection: "59 \<in> set q \<Longrightarrow> hasSqlInjection q"
proof -
  assume "59 \<in> set q"
  then obtain pre post where q: "q = pre @ 59 # post" by (auto simp: in_set_conv_decomp)
  have "sqlInjection_at (59 # post)" by (simp add: sqlInjection_at_def js_def)
  then show ?thesis unfolding hasSqlInjection_def q by (rule test_from_append)
qed

lemma logExecution_fields:
  "toolsExecuted (logExecution t m pg) = toolsExecuted pg"
  "executeStepContent (logExecution t m pg) = executeStepContent pg"
  "executionLog (logExecution t m pg) = executionLog pg @
     [\<lparr>l_class = js ''logEntry log-'' @ t, l_icon = js ''fas fa-'' @ toText (getIconForResultType t),
       l_message = escapeHtml m\<rparr>]"
  by (simp_all add: logExecution_def)

lemma executeToolsStep_blocked:
  "policyFailed (policies qd) \<Longrightarrow>
   executeToolsStep qd pg =
     (logExecution (js ''error'') (js ''Execution blocked: Security policy violations detected'') pg)
       \<lparr>executeStepContent :=
          [Heading (js ''Executing Tools''),
           ExecutionBlocked (js ''Execution blocked due to security policy violations'')]\<rparr>"
  by (simp add: executeToolsStep_def)

lemma policies_customise: "policies (customise q d) = customPolicies q"
  by (simp add: customise_def Let_def)

lemma results_customise: "results (customise q d) = customResults q (customPolicies q)"
  by (simp add: customise_def Let_def)

lemma dataFlow_customise: "dataFlow (customise q d) = customDataFlow q"
  by (simp add: customise_def Let_def)

lemma customPolicies_lookup:
  "map_of (customPolicies q) (js ''emailDomain'') =
     Some (if hasEmailDomain q
           then (if hasUntrustedEmail q
                 then pol ''fail'' ''Untrusted email domain detected''
                 else pol ''pass'' ''Email domain is trusted'')
           else pol ''na'' ''No email domains in query'')"
  "map_of (customPolicies q) (js ''sqlInjection'') =
     Some (if hasSqlInjection q
           then pol ''fail'' ''Potential SQL injection detected''
           else pol ''pass'' ''No SQL injection detected'')"
  "map_of (customPolicies q) (js ''capability'') =
     Some (if hasUntrustedEmail q
           then pol ''fail'' ''Data lacks required capability: trusted_email''
           else pol ''pass'' ''Required capabilities are satisfied'')"
  by (simp_all add: customPolicies_def js_eq_iff)

lemma policyFailed_custom:
  "policyFailed (customPolicies q) \<longleftrightarrow> hasUntrustedEmail q \<or> hasSqlInjection q"
  by (auto simp: policyFailed_def customPolicies_def pol_def js_eq_iff)

lemma customResults_failed:
  "policyFailed ps \<Longrightarrow> \<exists>m. customResults q ps = [res ''error'' m]"
  by (auto simp: customResults_def Let_def)

lemma malicious_query_untrusted:
  "hasUntrustedEmail (js ''Send the confidential report to external@attacker.com'')"
proof -
  have "untrustedEmail_at (js ''@attacker.com'')"
    by (simp add: untrustedEmail_at_def domain_at_def domain_char_def word_char_def
        tld_at_def js_def canonicalize_def)
  then have "test_from untrustedEmail_at (js ''Send the confidential report to external'' @ js ''@attacker.com'')"
    by (rule test_from_append)
  then show ?thesis by (simp add: hasUntrustedEmail_def js_append)
qed

section \<open>Fail-closed execution\<close>

text \<open>
  C1. Whenever some policy of a query definition reports \<^verbatim>\<open>fail\<close>, the
  execution step renders the heading and the blocked notice only: no result entry is
  rendered, the counter of executed tools keeps its value, and the log gains the one
  error entry of the block. In the analysis of a custom query, an untrusted e-mail
  domain makes the capability policy report \<^verbatim>\<open>fail\<close>, so that the
  definition fails and its only result entry is an error.
\<close>

theorem fail_closed_authorization:
  "(policyFailed (policies queryDef) \<longrightarrow>
      executeStepContent (executeToolsStep queryDef pg) =
        [Heading (js ''Executing Tools''),
         ExecutionBlocked (js ''Execution blocked due to security policy violations'')]
      \<and> toolsExecuted (executeToolsStep queryDef pg) = toolsExecuted pg
      \<and> executionLog (executeToolsStep queryDef pg) = executionLog pg @
           [\<lparr>l_class = js ''logEntry log-error'', l_icon = js ''fas fa-times-circle'',
             l_message = escapeHtml (js ''Execution blocked: Security policy violations detected'')\<rparr>])
   \<and> (hasUntrustedEmail q \<longrightarrow>
      map_of (policies (customise q d)) (js ''capability'') =
        Some (pol ''fail'' ''Data lacks required capability: trusted_email'')
      \<and> policyFailed (policies (customise q d))
      \<and> (\<exists>m. results (customise q d) = [res ''error'' m]))"
proof (intro conjI impI)
  assume f: "policyFailed (policies queryDef)"
  show "executeStepContent (executeToolsStep queryDef pg) =
        [Heading (js ''Executing Tools''),
         ExecutionBlocked (js ''Execution blocked due to security policy violations'')]"
    by (simp add: executeToolsStep_blocked [OF f])
  show "toolsExecuted (executeToolsStep queryDef pg) = toolsExecuted pg"
    by (simp add: executeToolsStep_blocked [OF f] logExecution_fields)
  have "toText (getIconForResultType (js ''error'')) = js ''times-circle''"
    by (simp add: getIconForResultType_def get_property_def toText_def icons_def js_eq_iff js_Nil)
  then show "executionLog (executeToolsStep queryDef pg) = executionLog pg @
           [\<lparr>l_class = js ''logEntry log-error'', l_icon = js ''fas fa-times-circle'',
             l_message = escapeHtml (js ''Execution blocked: Security policy violations detected'')\<rparr>]"
    by (simp add: executeToolsStep_blocked [OF f] logExecution_fields js_append)
next
  assume u: "hasUntrustedEmail q"
  then show "map_of (policies (customise q d)) (js ''capability'') =
        Some (pol ''fail'' ''Data lacks required capability: trusted_email'')"
    by (simp add: policies_customise customPolicies_lookup)
  from u show pf: "policyFailed (policies (customise q d))"
    by (simp add: policies_customise policyFailed_custom)
  then show "\<exists>m. results (customise q d) = [res ''error'' m]"
    unfolding results_customise policies_customise by (rule customResults_failed)
qed

lemma malicious_email_policyFailed: "policyFailed (policies malicious_email_def)"
  by (simp add: policyFailed_def malicious_email_def_def policy_table_def pol_def js_eq_iff)

theorem fail_closed_authorization_witness:
  "policyFailed (policies malicious_email_def)
   \<and> executeStepContent (executeToolsStep malicious_email_def initial_page) =
        [Heading (js ''Executing Tools''),
         ExecutionBlocked (js ''Execution blocked due to security policy violations'')]
   \<and> toolsExecuted (executeToolsStep malicious_email_def initial_page) = 0
   \<and> hasUntrustedEmail (js ''Send the confidential report to external@attacker.com'')
   \<and> policyFailed
        (policies (customise (js ''Send the confidential report to external@attacker.com'') custom_def))"
proof -
  note a = malicious_email_policyFailed
  note b = malicious_query_untrusted
  from fail_closed_authorization [of malicious_email_def initial_page
      "js ''Send the confidential report to external@attacker.com''" custom_def] a b
  show ?thesis by (simp add: initial_page_def)
qed

lemma hidden_malicious_policyFailed: "policyFailed (policies hidden_malicious_def)"
  by (simp add: policyFailed_def hidden_malicious_def_def policy_table_def pol_def js_eq_iff)

section \<open>Halt propagation\<close>

text \<open>
  C2. Once some policy of a plan reports \<^verbatim>\<open>fail\<close>, the execution step
  executes no statement of the plan, whatever result entries the plan holds: replacing
  the result list by any other list \<open>rs\<close> (valid success entries included) gives
  the same page, no result is rendered, the counter of executed tools keeps its value
  and the log gains one entry, the block.
\<close>

theorem halt_propagation:
  "policyFailed (policies queryDef) \<Longrightarrow>
     executeToolsStep (queryDef\<lparr>results := rs\<rparr>) pg = executeToolsStep queryDef pg
     \<and> filter is_result (executeStepContent (executeToolsStep (queryDef\<lparr>results := rs\<rparr>) pg)) = []
     \<and> toolsExecuted (executeToolsStep (queryDef\<lparr>results := rs\<rparr>) pg) = toolsExecuted pg
     \<and> length (executionLog (executeToolsStep (queryDef\<lparr>results := rs\<rparr>) pg))
         = Suc (length (executionLog pg))"
proof -
  assume f: "policyFailed (policies queryDef)"
  then have f': "policyFailed (policies (queryDef\<lparr>results := rs\<rparr>))" by simp
  show ?thesis
    by (simp add: executeToolsStep_blocked [OF f] executeToolsStep_blocked [OF f']
        logExecution_fields is_result_def)
qed

theorem halt_propagation_witness:
  "policyFailed (policies malicious_email_def)
   \<and> executeToolsStep (malicious_email_def\<lparr>results := results search_def\<rparr>) initial_page
       = executeToolsStep malicious_email_def initial_page
   \<and> toolsExecuted (executeToolsStep (malicious_email_def\<lparr>results := results search_def\<rparr>) initial_page) = 0"
proof -
  note h = halt_propagation [OF malicious_email_policyFailed, of "results search_def" initial_page]
  have z: "toolsExecuted initial_page = 0" by (simp add: initial_page_def)
  from h z malicious_email_policyFailed show ?thesis by metis
qed

section \<open>A trusted and an untrusted send in one plan\<close>

text \<open>
  C3, as stated, fails on the definition \<^verbatim>\<open>hidden_malicious\<close>: its
  capability policy reports \<^verbatim>\<open>fail\<close>, so the execution step blocks the
  whole plan and the send to the trusted recipient is not executed either.
\<close>

theorem trusted_send_not_executed:
  "ExecutionResult (js ''resultSuccess'') (js ''check-circle'')
     (js ''Successfully executed send_email: Email sent to admin@company.com with document: Found 3 documents matching query: documents'')
     \<notin> set (executeStepContent (executeToolsStep hidden_malicious_def initial_page))
   \<and> toolsExecuted (executeToolsStep hidden_malicious_def initial_page) = 0"
  by (simp add: executeToolsStep_blocked [OF hidden_malicious_policyFailed]
      logExecution_fields initial_page_def)

lemma js_prefix: "prefix (js a) (js b) \<longleftrightarrow> prefix a b"
  by (auto simp: js_def prefix_def map_eq_append_conv js_eq_iff [unfolded js_def])

text \<open>
  C3, amended. The stored result list of \<^verbatim>\<open>hidden_malicious\<close> has three
  entries: exactly one reports an executed \<^verbatim>\<open>send_email\<close>, exactly one
  is an error, and the error is the last entry. The execution step shows none of them:
  the plan has a failing policy, so only the blocked notice is rendered and the counter
  of executed tools keeps its value.
\<close>

theorem hidden_malicious_record_and_block:
  "map_of queryDefinitions (js ''hidden_malicious'') = Some 5
   \<and> heap initial_world 5 = Some hidden_malicious_def
   \<and> length (results hidden_malicious_def) = 3
   \<and> length (filter send_entry (results hidden_malicious_def)) = 1
   \<and> length (filter (\<lambda>r. r_type r = js ''error'') (results hidden_malicious_def)) = 1
   \<and> r_type (last (results hidden_malicious_def)) = js ''error''
   \<and> policyFailed (policies hidden_malicious_def)
   \<and> executeStepContent (executeToolsStep hidden_malicious_def pg) =
        [Heading (js ''Executing Tools''),
         ExecutionBlocked (js ''Execution blocked due to security policy violations'')]
   \<and> toolsExecuted (executeToolsStep hidden_malicious_def pg) = toolsExecuted pg"
proof -
  have "map_of queryDefinitions (js ''hidden_malicious'') = Some 5"
    by (simp add: queryDefinitions_def js_eq_iff)
  moreover have "heap initial_world 5 = Some hidden_malicious_def"
    by (simp add: initial_world_def initial_heap_def)
  moreover have "results hidden_malicious_def =
     [res ''success'' (js ''Successfully executed search_document: Found 3 documents matching query: documents''),
      res ''success'' (js ''Successfully executed send_email: Email sent to admin@company.com with document: Found 3 documents matching query: documents''),
      res ''error'' (js ''Security policy violation: send_email requires trusted_email capability, but recipient external@attacker.com lacks this capability'')]"
    by (simp add: hidden_malicious_def_def)
  then have "length (results hidden_malicious_def) = 3"
    "length (filter send_entry (results hidden_malicious_def)) = 1"
    "length (filter (\<lambda>r. r_type r = js ''error'') (results hidden_malicious_def)) = 1"
    "r_type (last (results hidden_malicious_def)) = js ''error''"
    by (simp_all add: send_entry_def res_def js_eq_iff js_prefix)
  ultimately show ?thesis
    using hidden_malicious_policyFailed
    by (simp add: executeToolsStep_blocked [OF hidden_malicious_policyFailed] logExecution_fields)
qed

section \<open>The domain policy\<close>

text \<open>
  What the test for untrusted addresses detects: an \<^verbatim>\<open>@\<close> followed by a
  nonempty run of domain characters and a top-level domain
  \<^verbatim>\<open>.com\<close>, \<^verbatim>\<open>.org\<close> or \<^verbatim>\<open>.net\<close>, when
  the text after the \<^verbatim>\<open>@\<close> does not begin with one of the two trusted
  domains. The plan \<^verbatim>\<open>malicious_email\<close> is blocked without an executed
  tool.
\<close>

lemma domain_rest_append: "list_all domain_char d \<Longrightarrow> tld_at t \<Longrightarrow> domain_rest (d @ t)"
proof (induction d)
  case Nil
  then show ?case by (cases t) simp_all
next
  case (Cons c d)
  then show ?case by simp
qed

lemma untrusted_address_detected:
  assumes "d \<noteq> []" and "list_all domain_char d" and "tld_at t"
    and "\<not> literal_at (js ''company.com'') (d @ t @ post)"
    and "\<not> literal_at (js ''trusted-partner.com'') (d @ t @ post)"
  shows "hasUntrustedEmail (pre @ 64 # d @ t @ post)"
proof -
  have tl: "tld_at (t @ post)"
  proof -
    have "\<And>p s. literal_at p s \<Longrightarrow> literal_at p (s @ post)"
    proof -
      fix p s show "literal_at p s \<Longrightarrow> literal_at p (s @ post)"
        by (induction p s rule: literal_at.induct) simp_all
    qed
    with assms(3) show ?thesis by (auto simp: tld_at_def)
  qed
  from assms(1) obtain c d' where d: "d = c # d'" by (cases d) auto
  with assms(2) have "domain_char c" "list_all domain_char d'" by simp_all
  with tl have "domain_at (d @ t @ post)"
    by (simp add: d domain_at_def domain_rest_append)
  with assms(4,5) have "untrustedEmail_at (64 # d @ t @ post)"
    by (simp add: untrustedEmail_at_def)
  then show ?thesis unfolding hasUntrustedEmail_def by (rule test_from_append)
qed

lemma malicious_email_plan_halted:
  "map_of (policies malicious_email_def) (js ''emailDomain'') =
     Some (pol ''fail'' ''external@attacker.com is not a trusted domain'')"
  "map_of (policies malicious_email_def) (js ''capability'') =
     Some (pol ''fail'' ''Data lacks required capability: trusted_email'')"
  "executeStepContent (executeToolsStep malicious_email_def pg) =
     [Heading (js ''Executing Tools''),
      ExecutionBlocked (js ''Execution blocked due to security policy violations'')]"
  "toolsExecuted (executeToolsStep malicious_email_def pg) = toolsExecuted pg"
  by (simp_all add: executeToolsStep_blocked [OF malicious_email_policyFailed] logExecution_fields)
     (simp_all add: malicious_email_def_def policy_table_def js_eq_iff)

lemma bypass_query_email: "hasEmailDomain (js ''send to bob@company.com.attacker.org'')"
proof -
  have "emailDomain_at (js ''@company.com.attacker.org'')"
    by (simp add: emailDomain_at_def domain_at_def domain_char_def word_char_def
        tld_at_def js_def canonicalize_def)
  then have "test_from emailDomain_at (js ''send to bob'' @ js ''@company.com.attacker.org'')"
    by (rule test_from_append)
  then show ?thesis by (simp add: hasEmailDomain_def js_append)
qed

lemma bypass_query_trusted: "\<not> hasUntrustedEmail (js ''send to bob@company.com.attacker.org'')"
  by (simp add: hasUntrustedEmail_def untrustedEmail_at_def js_def canonicalize_def)

lemma bypass_query_sql: "\<not> hasSqlInjection (js ''send to bob@company.com.attacker.org'')"
  by (simp add: hasSqlInjection_def sqlInjection_at_def js_def canonicalize_def)

lemma executeToolsStep_one_success:
  "\<not> policyFailed (policies qd) \<Longrightarrow> results qd = [res ''success'' m] \<Longrightarrow>
   toolsExecuted (executeToolsStep qd pg) = Suc (toolsExecuted pg)
   \<and> executeStepContent (executeToolsStep qd pg) =
       [Heading (js ''Executing Tools''), ResultsOpen,
        ExecutionResult (js ''resultSuccess'') (js ''check-circle'') m, ResultsClose]"
  by (simp add: executeToolsStep_def showResult_def res_def logExecution_def resultClass_def
      getIconForResultType_def get_property_def toText_def icons_def js_eq_iff js_Nil)

text \<open>
  C4. The negative lookahead of the test for untrusted addresses is not anchored at the
  end of the domain: an address whose domain only begins with an allow-listed domain,
  such as \<^verbatim>\<open>bob@company.com.attacker.org\<close>, is taken as trusted. For
  the custom query below the domain policy and the capability policy report
  \<^verbatim>\<open>pass\<close>, no policy fails, and the execution step counts one executed
  tool.
\<close>

theorem allow_list_prefix_bypass:
  "hasEmailDomain (js ''send to bob@company.com.attacker.org'')
   \<and> \<not> hasUntrustedEmail (js ''send to bob@company.com.attacker.org'')
   \<and> policies (customise (js ''send to bob@company.com.attacker.org'') custom_def) =
       policy_table (pol ''pass'' ''Email domain is trusted'')
         (pol ''pass'' ''No SQL injection detected'')
         (pol ''pass'' ''Data flow is valid'')
         (pol ''pass'' ''Required capabilities are satisfied'')
   \<and> \<not> policyFailed (policies (customise (js ''send to bob@company.com.attacker.org'') custom_def))
   \<and> results (customise (js ''send to bob@company.com.attacker.org'') custom_def) =
       [res ''success'' (js ''Successfully processed query: send to bob@company.com.attacker.org'')]
   \<and> toolsExecuted
        (executeToolsStep (customise (js ''send to bob@company.com.attacker.org'') custom_def)
           initial_page) = 1"
proof -
  let ?q = "js ''send to bob@company.com.attacker.org''"
  have p: "policies (customise ?q custom_def) =
       policy_table (pol ''pass'' ''Email domain is trusted'')
         (pol ''pass'' ''No SQL injection detected'')
         (pol ''pass'' ''Data flow is valid'')
         (pol ''pass'' ''Required capabilities are satisfied'')"
    by (simp add: policies_customise customPolicies_def policy_table_def bypass_query_email bypass_query_trusted bypass_query_sql)
  have nf: "\<not> policyFailed (policies (customise ?q custom_def))"
    by (simp add: policies_customise policyFailed_custom bypass_query_trusted bypass_query_sql)
  then have r: "results (customise ?q custom_def) =
       [res ''success'' (js ''Successfully processed query: send to bob@company.com.attacker.org'')]"
    by (simp add: results_customise policies_customise customResults_def js_append)
  have "toolsExecuted (executeToolsStep (customise ?q custom_def) initial_page) = 1"
    using executeToolsStep_one_success [OF nf r, of initial_page] by (simp add: initial_page_def)
  with p nf r bypass_query_email bypass_query_trusted show ?thesis by simp
qed

section \<open>Capability labels of derived nodes\<close>

text \<open>
  C5, as stated, fails on the data flow of the definition \<^verbatim>\<open>search\<close>:
  the node \<^verbatim>\<open>result_1\<close> has the single parent
  \<^verbatim>\<open>tool_1\<close> (\<^verbatim>\<open>search_document\<close>, not a sanitizer) with
  the capability \<^verbatim>\<open>user_query\<close>, and holds
  \<^verbatim>\<open>search_result\<close>.
\<close>

theorem search_result_not_intersection:
  "find_node (dataFlow search_def) (js ''result_1'') =
     Some (node ''result_1'' ''Search Result'' ''Found 3 documents'' [''search_result''])
   \<and> parents (dataFlow search_def) (js ''result_1'') =
     [node ''tool_1'' ''search_document'' ''search_document'' [''user_query'']]
   \<and> \<not> capability_monotone (dataFlow search_def) (js ''result_1'')"
proof -
  have f: "find_node (dataFlow search_def) (js ''result_1'') =
     Some (node ''result_1'' ''Search Result'' ''Found 3 documents'' [''search_result''])"
    by (simp add: find_node_def nodes_def is_node_def search_def_def node_def edge_def js_eq_iff js_Nil)
  have t: "find_node (dataFlow search_def) (js ''tool_1'') =
     Some (node ''tool_1'' ''search_document'' ''search_document'' [''user_query''])"
    by (simp add: find_node_def nodes_def is_node_def search_def_def node_def edge_def js_eq_iff js_Nil)
  have e: "edges (dataFlow search_def) =
     [edge ''input_1'' ''tool_1'' ''input'', edge ''tool_1'' ''result_1'' ''output'']"
    by (simp add: edges_def is_node_def search_def_def node_def edge_def js_Nil)
  have p: "parents (dataFlow search_def) (js ''result_1'') =
     [node ''tool_1'' ''search_document'' ''search_document'' [''user_query'']]"
    by (simp add: parents_def e t edge_def js_eq_iff)
  have "\<not> capability_monotone (dataFlow search_def) (js ''result_1'')"
    by (simp add: capability_monotone_def f p common_capabilities_def capabilities_def node_def js_eq_iff)
  with f p show ?thesis by simp
qed

text \<open>
  C5, amended. The capability labels are the literals written in the definitions. For
  every custom query the data flow is the same three nodes and two edges, with the
  labels \<^verbatim>\<open>user_input\<close>, \<^verbatim>\<open>execution\<close> and
  \<^verbatim>\<open>result\<close>, whatever the query; the derived node
  \<^verbatim>\<open>process_1\<close> does not hold the capabilities common to its parents.
\<close>

theorem custom_flow_fixed_labels:
  "dataFlow (customise q d) =
     [Node (js ''input_1'') (js ''User Query'') q [js ''user_input''],
      node ''process_1'' ''Process Query'' ''process_query'' [''execution''],
      node ''result_1'' ''Query Result'' ''Results'' [''result''],
      edge ''input_1'' ''process_1'' ''input'',
      edge ''process_1'' ''result_1'' ''output'']
   \<and> map capabilities (nodes (dataFlow (customise q d))) =
       [[js ''user_input''], [js ''execution''], [js ''result'']]
   \<and> parents (dataFlow (customise q d)) (js ''process_1'') =
       [Node (js ''input_1'') (js ''User Query'') q [js ''user_input'']]
   \<and> find_node (dataFlow (customise q d)) (js ''process_1'') =
       Some (node ''process_1'' ''Process Query'' ''process_query'' [''execution''])
   \<and> \<not> capability_monotone (dataFlow (customise q d)) (js ''process_1'')"
proof -
  let ?df = "dataFlow (customise q d)"
  have d: "?df =
     [Node (js ''input_1'') (js ''User Query'') q [js ''user_input''],
      node ''process_1'' ''Process Query'' ''process_query'' [''execution''],
      node ''result_1'' ''Query Result'' ''Results'' [''result''],
      edge ''input_1'' ''process_1'' ''input'',
      edge ''process_1'' ''result_1'' ''output'']"
    by (simp add: dataFlow_customise customDataFlow_def)
  have n: "nodes ?df =
     [Node (js ''input_1'') (js ''User Query'') q [js ''user_input''],
      node ''process_1'' ''Process Query'' ''process_query'' [''execution''],
      node ''result_1'' ''Query Result'' ''Results'' [''result'']]"
    by (simp add: d nodes_def is_node_def node_def edge_def js_Nil)
  have e: "edges ?df =
     [edge ''input_1'' ''process_1'' ''input'', edge ''process_1'' ''result_1'' ''output'']"
    by (simp add: d edges_def is_node_def node_def edge_def js_Nil)
  have c: "map capabilities (nodes ?df) = [[js ''user_input''], [js ''execution''], [js ''result'']]"
    by (simp add: n capabilities_def node_def)
  have i: "find_node ?df (js ''input_1'') =
     Some (Node (js ''input_1'') (js ''User Query'') q [js ''user_input''])"
    by (simp add: find_node_def n)
  have f: "find_node ?df (js ''process_1'') =
     Some (node ''process_1'' ''Process Query'' ''process_query'' [''execution''])"
    by (simp add: find_node_def n node_def js_eq_iff)
  have p: "parents ?df (js ''process_1'') =
     [Node (js ''input_1'') (js ''User Query'') q [js ''user_input'']]"
    by (simp add: parents_def e i edge_def js_eq_iff)
  have "\<not> capability_monotone ?df (js ''process_1'')"
    by (simp add: capability_monotone_def f p common_capabilities_def capabilities_def node_def js_eq_iff)
  with d c p f show ?thesis by simp
qed

section \<open>Injection attempts\<close>

lemma sql_injection_not_failed: "\<not> policyFailed (policies sql_injection_def)"
  by (simp add: policyFailed_def sql_injection_def_def policy_table_def pol_def js_eq_iff)

lemma sql_injection_flow:
  "find_node (dataFlow sql_injection_def) (js ''input_1'') =
     Some (node ''input_1'' ''Raw Query'' ''project schedules; DROP TABLE users;'' [''user_input''])"
  "find_node (dataFlow sql_injection_def) (js ''sanitize_1'') =
     Some (node ''sanitize_1'' ''Sanitizer'' ''Sanitize SQL'' [''security''])"
  "find_node (dataFlow sql_injection_def) (js ''input_2'') =
     Some (node ''input_2'' ''Sanitized Query'' ''project schedules'' [''user_query'', ''sanitized''])"
  "edges (dataFlow sql_injection_def) =
     [edge ''input_1'' ''sanitize_1'' ''input'', edge ''sanitize_1'' ''input_2'' ''sanitize'',
      edge ''input_2'' ''tool_1'' ''input'', edge ''tool_1'' ''result_1'' ''output'']"
  by (simp_all add: find_node_def nodes_def edges_def is_node_def sql_injection_def_def
      node_def edge_def js_eq_iff js_Nil)

lemma sql_injection_parents:
  "parents (dataFlow sql_injection_def) (js ''sanitize_1'') =
     [node ''input_1'' ''Raw Query'' ''project schedules; DROP TABLE users;'' [''user_input'']]"
  "parents (dataFlow sql_injection_def) (js ''input_2'') =
     [node ''sanitize_1'' ''Sanitizer'' ''Sanitize SQL'' [''security'']]"
  "parents (dataFlow sql_injection_def) (js ''tool_1'') =
     [node ''input_2'' ''Sanitized Query'' ''project schedules'' [''user_query'', ''sanitized'']]"
  by (simp_all add: parents_def sql_injection_flow edge_def js_eq_iff)

lemma sql_injection_executes:
  "executeStepContent (executeToolsStep sql_injection_def pg) =
     [Heading (js ''Executing Tools''), ResultsOpen,
      ExecutionResult (js ''resultWarning'') (js ''exclamation-triangle'')
        (js ''SQL injection attempt detected and sanitized''),
      ExecutionResult (js ''resultSuccess'') (js ''check-circle'')
        (js ''Successfully executed search_document: Found 3 documents matching query: project schedules''),
      ResultsClose]"
  "toolsExecuted (executeToolsStep sql_injection_def pg) = Suc (toolsExecuted pg)"
proof -
  have r: "results sql_injection_def =
     [res ''warning'' (js ''SQL injection attempt detected and sanitized''),
      res ''success'' (js ''Successfully executed search_document: Found 3 documents matching query: project schedules'')]"
    by (simp add: sql_injection_def_def)
  show "executeStepContent (executeToolsStep sql_injection_def pg) =
     [Heading (js ''Executing Tools''), ResultsOpen,
      ExecutionResult (js ''resultWarning'') (js ''exclamation-triangle'')
        (js ''SQL injection attempt detected and sanitized''),
      ExecutionResult (js ''resultSuccess'') (js ''check-circle'')
        (js ''Successfully executed search_document: Found 3 documents matching query: project schedules''),
      ResultsClose]"
    by (simp add: executeToolsStep_def sql_injection_not_failed r showResult_def res_def
        logExecution_def resultClass_def getIconForResultType_def get_property_def toText_def icons_def js_eq_iff js_Nil)
  show "toolsExecuted (executeToolsStep sql_injection_def pg) = Suc (toolsExecuted pg)"
    by (simp add: executeToolsStep_def sql_injection_not_failed r showResult_def res_def
        logExecution_def js_eq_iff)
qed

text \<open>
  C6. A query that holds a statement separator (the semicolon, 59) is flagged by the
  injection test of the custom analysis; used as it is, it makes the injection policy
  fail and the execution step blocks it. The definition \<^verbatim>\<open>sql_injection\<close>
  routes the raw query \<^verbatim>\<open>project schedules; DROP TABLE users;\<close> through the
  sanitizer node: the derived node \<^verbatim>\<open>input_2\<close> carries
  \<^verbatim>\<open>sanitized\<close>, it is the argument of \<^verbatim>\<open>search_document\<close>,
  no policy fails and the execution step runs to the end with one executed tool.
\<close>

theorem sql_injection_sanitization:
  "(59 \<in> set q \<longrightarrow> hasSqlInjection q)
   \<and> (hasSqlInjection q \<longrightarrow>
        map_of (policies (customise q d)) (js ''sqlInjection'') =
          Some (pol ''fail'' ''Potential SQL injection detected'')
        \<and> policyFailed (policies (customise q d))
        \<and> executeStepContent (executeToolsStep (customise q d) pg) =
            [Heading (js ''Executing Tools''),
             ExecutionBlocked (js ''Execution blocked due to security policy violations'')]
        \<and> toolsExecuted (executeToolsStep (customise q d) pg) = toolsExecuted pg)
   \<and> find_node (dataFlow sql_injection_def) (js ''input_1'') =
        Some (node ''input_1'' ''Raw Query'' ''project schedules; DROP TABLE users;'' [''user_input''])
   \<and> map_of (policies sql_injection_def) (js ''sqlInjection'') =
        Some (pol ''pass'' ''SQL injection detected and sanitized'')
   \<and> parents (dataFlow sql_injection_def) (js ''sanitize_1'') =
        [node ''input_1'' ''Raw Query'' ''project schedules; DROP TABLE users;'' [''user_input'']]
   \<and> parents (dataFlow sql_injection_def) (js ''input_2'') =
        [node ''sanitize_1'' ''Sanitizer'' ''Sanitize SQL'' [''security'']]
   \<and> find_node (dataFlow sql_injection_def) (js ''input_2'') =
        Some (node ''input_2'' ''Sanitized Query'' ''project schedules'' [''user_query'', ''sanitized''])
   \<and> parents (dataFlow sql_injection_def) (js ''tool_1'') =
        [node ''input_2'' ''Sanitized Query'' ''project schedules'' [''user_query'', ''sanitized'']]
   \<and> \<not> policyFailed (policies sql_injection_def)
   \<and> executeStepContent (executeToolsStep sql_injection_def pg) =
        [Heading (js ''Executing Tools''), ResultsOpen,
         ExecutionResult (js ''resultWarning'') (js ''exclamation-triangle'')
           (js ''SQL injection attempt detected and sanitized''),
         ExecutionResult (js ''resultSuccess'') (js ''check-circle'')
           (js ''Successfully executed search_document: Found 3 documents matching query: project schedules''),
         ResultsClose]
   \<and> toolsExecuted (executeToolsStep sql_injection_def pg) = Suc (toolsExecuted pg)"
proof -
  have a: "59 \<in> set q \<longrightarrow> hasSqlInjection q"
    by (simp add: separator_hasSqlInjection)
  have b: "hasSqlInjection q \<longrightarrow>
        map_of (policies (customise q d)) (js ''sqlInjection'') =
          Some (pol ''fail'' ''Potential SQL injection detected'')
        \<and> policyFailed (policies (customise q d))
        \<and> executeStepContent (executeToolsStep (customise q d) pg) =
            [Heading (js ''Executing Tools''),
             ExecutionBlocked (js ''Execution blocked due to security policy violations'')]
        \<and> toolsExecuted (executeToolsStep (customise q d) pg) = toolsExecuted pg"
  proof
    assume h: "hasSqlInjection q"
    then have f: "policyFailed (policies (customise q d))"
      by (simp add: policies_customise policyFailed_custom)
    from h show "map_of (policies (customise q d)) (js ''sqlInjection'') =
          Some (pol ''fail'' ''Potential SQL injection detected'')
        \<and> policyFailed (policies (customise q d))
        \<and> executeStepContent (executeToolsStep (customise q d) pg) =
            [Heading (js ''Executing Tools''),
             ExecutionBlocked (js ''Execution blocked due to security policy violations'')]
        \<and> toolsExecuted (executeToolsStep (customise q d) pg) = toolsExecuted pg"
      by (simp add: executeToolsStep_blocked [OF f] logExecution_fields policies_customise
          customPolicies_lookup policyFailed_custom)
  qed
  have c: "map_of (policies sql_injection_def) (js ''sqlInjection'') =
        Some (pol ''pass'' ''SQL injection detected and sanitized'')"
    by (simp add: sql_injection_def_def policy_table_def js_eq_iff)
  from a b c sql_injection_flow(1,3) sql_injection_parents sql_injection_not_failed
    sql_injection_executes [of pg]
  show ?thesis by blast
qed

theorem sql_injection_sanitization_witness:
  "59 \<in> set (js ''project schedules; DROP TABLE users;'')
   \<and> hasSqlInjection (js ''project schedules; DROP TABLE users;'')
   \<and> policyFailed (policies (customise (js ''project schedules; DROP TABLE users;'') custom_def))
   \<and> toolsExecuted
        (executeToolsStep (customise (js ''project schedules; DROP TABLE users;'') custom_def)
           initial_page) = 0
   \<and> toolsExecuted (executeToolsStep sql_injection_def initial_page) = 1"
proof -
  have s: "59 \<in> set (js ''project schedules; DROP TABLE users;'')"
    by (simp add: js_def)
  have z: "toolsExecuted initial_page = 0" by (simp add: initial_page_def)
  from sql_injection_sanitization [of "js ''project schedules; DROP TABLE users;''"
      custom_def initial_page] s z
  show ?thesis by simp
qed

section \<open>Queries and the heap\<close>

lemma custom_ref: "map_of queryDefinitions (js ''custom'') = Some 6"
  by (simp add: queryDefinitions_def js_eq_iff)

lemma assign_clone:
  "assign a f (w\<lparr>heap := (heap w)(a \<mapsto> d), next_ref := n\<rparr>) =
     w\<lparr>heap := (heap w)(a \<mapsto> f d), next_ref := n\<rparr>"
  by (rule world.equality) (auto simp: assign_def)

lemma analyzeCustomQuery_eq:
  "heap w 6 = Some template \<Longrightarrow>
   analyzeCustomQuery q w =
     Some (next_ref w,
       w\<lparr>heap := (heap w)(next_ref w \<mapsto> customise q template), next_ref := Suc (next_ref w)\<rparr>)"
  by (simp add: analyzeCustomQuery_def custom_ref deepClone_def assign_clone)

lemma predefined_ref:
  "predefined t = Some (Ref r) \<Longrightarrow> \<exists>n. map_of queryDefinitions n = Some r"
  by (auto simp: predefined_def get_property_def split: option.splits if_splits)

lemma predefined_member:
  "predefined t = Some (Member m) \<Longrightarrow>
   t = Some m \<and> m \<in> set object_prototype_names \<and> map_of queryDefinitions m = None"
  by (auto simp: predefined_def get_property_def split: option.splits if_splits)

lemma well_formed_refs:
  "well_formed w \<Longrightarrow> map_of queryDefinitions n = Some r \<Longrightarrow> r < next_ref w \<and> heap w r \<noteq> None"
  by (auto simp: well_formed_def list_all_iff dest!: map_of_SomeD)

lemma well_formed_custom: "well_formed w \<Longrightarrow> \<exists>template. heap w 6 = Some template"
  using well_formed_refs [OF _ custom_ref] by auto

lemma same_definitions_refs:
  "same_definitions w1 w2 \<Longrightarrow> map_of queryDefinitions n = Some r \<Longrightarrow> heap w1 r = heap w2 r"
  by (auto simp: same_definitions_def list_all_iff dest!: map_of_SomeD)

lemma processQuery_no_key:
  "\<not> hasApiKey w \<Longrightarrow>
   processQuery q t w =
     Some (Failure (js ''API key is not configured. Please set your API key first.''), w)"
  by (simp add: processQuery_def)

lemma processQuery_predefined:
  "hasApiKey w \<Longrightarrow> predefined t = Some r \<Longrightarrow> processQuery q t w = Some (Success r, w)"
  by (simp add: processQuery_def)

lemma processQuery_custom:
  "hasApiKey w \<Longrightarrow> heap w 6 = Some template \<Longrightarrow> predefined t = None \<Longrightarrow>
   processQuery q t w =
     Some (Success (Ref (next_ref w)),
       w\<lparr>heap := (heap w)(next_ref w \<mapsto> customise q template), next_ref := Suc (next_ref w)\<rparr>)"
  by (simp add: processQuery_def analyzeCustomQuery_eq)

text \<open>The outcome of a query as a function of the key flag and of the definitions.\<close>

lemma processQuery_outcome:
  assumes "well_formed w"
  shows "\<exists>r w'. processQuery q t w = Some (r, w')
     \<and> outcome r w' =
         (if \<not> hasApiKey w
          then Error (js ''API key is not configured. Please set your API key first.'')
          else (case predefined t of
                  Some (Ref a) \<Rightarrow> Definition (heap w a)
                | Some (Member m) \<Rightarrow> Prototype_member m
                | None \<Rightarrow> Definition (map_option (customise q) (heap w 6))))"
proof (cases "hasApiKey w")
  case False
  then show ?thesis by (simp add: processQuery_no_key outcome_def)
next
  case True
  from assms obtain template where tm: "heap w 6 = Some template"
    using well_formed_custom by blast
  show ?thesis
  proof (cases "predefined t")
    case None
    with True tm show ?thesis by (simp add: processQuery_custom outcome_def)
  next
    case (Some v)
    with True show ?thesis
      by (cases v) (simp_all add: processQuery_predefined outcome_def)
  qed
qed

lemma initial_world_well_formed: "well_formed (initial_world\<lparr>apiKey := k\<rparr>)"
  by (simp add: well_formed_def queryDefinitions_def initial_world_def initial_heap_def)

lemma predefined_constructor:
  "predefined (Some (js ''constructor'')) = Some (Member (js ''constructor''))"
  by (simp add: predefined_def get_property_def queryDefinitions_def object_prototype_names_def
      js_eq_iff js_Nil)

section \<open>Determinism\<close>

text \<open>
  C7. Two interpretations of the same query and query type, in two well-formed worlds
  that hold the same definitions and agree on whether a key is set (the keys
  themselves, the free addresses and the objects of earlier custom queries may
  differ), both return, and their outcomes are equal: the same error text, the same
  definition with the same policies, result entries and data-flow items in the same
  order, or the same inherited member. With a key the outcome is a definition, unless
  the query type names a member that the table inherits from
  \<^verbatim>\<open>Object.prototype\<close> (such as \<^verbatim>\<open>constructor\<close>): then the
  outcome is that member and no definition is analysed.
\<close>

theorem processQuery_deterministic:
  assumes "well_formed w1" and "well_formed w2" and "same_definitions w1 w2"
    and "hasApiKey w1 = hasApiKey w2"
  shows "\<exists>r1 w1' r2 w2'.
      processQuery q t w1 = Some (r1, w1') \<and> processQuery q t w2 = Some (r2, w2')
      \<and> outcome r1 w1' = outcome r2 w2'
      \<and> (hasApiKey w1 \<and> (\<forall>n. predefined t \<noteq> Some (Member n)) \<longrightarrow>
           (\<exists>d. outcome r1 w1' = Definition (Some d)))
      \<and> (hasApiKey w1 \<and> predefined t = Some (Member m) \<longrightarrow>
           t = Some m \<and> m \<in> set object_prototype_names
           \<and> outcome r1 w1' = Prototype_member m \<and> w1' = w1)"
proof -
  from processQuery_outcome [OF assms(1), of q t] obtain r1 w1' where
    p1: "processQuery q t w1 = Some (r1, w1')" and
    o1: "outcome r1 w1' =
         (if \<not> hasApiKey w1
          then Error (js ''API key is not configured. Please set your API key first.'')
          else (case predefined t of
                  Some (Ref a) \<Rightarrow> Definition (heap w1 a)
                | Some (Member m) \<Rightarrow> Prototype_member m
                | None \<Rightarrow> Definition (map_option (customise q) (heap w1 6))))"
    by blast
  from processQuery_outcome [OF assms(2), of q t] obtain r2 w2' where
    p2: "processQuery q t w2 = Some (r2, w2')" and
    o2: "outcome r2 w2' =
         (if \<not> hasApiKey w2
          then Error (js ''API key is not configured. Please set your API key first.'')
          else (case predefined t of
                  Some (Ref a) \<Rightarrow> Definition (heap w2 a)
                | Some (Member m) \<Rightarrow> Prototype_member m
                | None \<Rightarrow> Definition (map_option (customise q) (heap w2 6))))"
    by blast
  have c: "heap w1 6 = heap w2 6"
    using same_definitions_refs [OF assms(3) custom_ref] .
  have e: "outcome r1 w1' = outcome r2 w2'"
  proof (cases "predefined t")
    case None
    with o1 o2 c assms(4) show ?thesis by simp
  next
    case (Some v)
    show ?thesis
    proof (cases v)
      case (Ref a)
      with Some obtain n where "map_of queryDefinitions n = Some a"
        using predefined_ref by blast
      then have "heap w1 a = heap w2 a" using same_definitions_refs [OF assms(3)] by blast
      with o1 o2 Some Ref assms(4) show ?thesis by simp
    next
      case (Member n)
      with o1 o2 Some assms(4) show ?thesis by simp
    qed
  qed
  have d: "hasApiKey w1 \<and> (\<forall>n. predefined t \<noteq> Some (Member n)) \<longrightarrow>
           (\<exists>d. outcome r1 w1' = Definition (Some d))"
  proof
    assume k: "hasApiKey w1 \<and> (\<forall>n. predefined t \<noteq> Some (Member n))"
    show "\<exists>d. outcome r1 w1' = Definition (Some d)"
    proof (cases "predefined t")
      case None
      from assms(1) obtain template where "heap w1 6 = Some template"
        using well_formed_custom by blast
      with o1 k None show ?thesis by simp
    next
      case (Some v)
      with k obtain a where v: "v = Ref a" by (cases v) auto
      with Some obtain n where "map_of queryDefinitions n = Some a"
        using predefined_ref by blast
      then have "heap w1 a \<noteq> None" using well_formed_refs [OF assms(1)] by blast
      with o1 k Some v show ?thesis by auto
    qed
  qed
  have i: "hasApiKey w1 \<and> predefined t = Some (Member m) \<longrightarrow>
           t = Some m \<and> m \<in> set object_prototype_names
           \<and> outcome r1 w1' = Prototype_member m \<and> w1' = w1"
  proof
    assume k: "hasApiKey w1 \<and> predefined t = Some (Member m)"
    then have "processQuery q t w1 = Some (Success (Member m), w1)"
      by (simp add: processQuery_predefined)
    with p1 have "w1' = w1" by simp
    with o1 k predefined_member [of t m]
    show "t = Some m \<and> m \<in> set object_prototype_names
           \<and> outcome r1 w1' = Prototype_member m \<and> w1' = w1"
      by simp
  qed
  from p1 p2 e d i show ?thesis by blast
qed

theorem processQuery_deterministic_witness:
  "well_formed (initial_world\<lparr>apiKey := Some (js ''sk-first'')\<rparr>)
   \<and> well_formed (initial_world\<lparr>heap := (heap initial_world)(7 \<mapsto> search_def),
          next_ref := 8, apiKey := Some (js ''another key'')\<rparr>)
   \<and> same_definitions (initial_world\<lparr>apiKey := Some (js ''sk-first'')\<rparr>)
        (initial_world\<lparr>heap := (heap initial_world)(7 \<mapsto> search_def),
          next_ref := 8, apiKey := Some (js ''another key'')\<rparr>)
   \<and> hasApiKey (initial_world\<lparr>apiKey := Some (js ''sk-first'')\<rparr>)
   \<and> hasApiKey (initial_world\<lparr>heap := (heap initial_world)(7 \<mapsto> search_def),
          next_ref := 8, apiKey := Some (js ''another key'')\<rparr>)
   \<and> (\<exists>r1 w1' r2 w2' d.
        processQuery (js ''send to bob@company.com'') None
          (initial_world\<lparr>apiKey := Some (js ''sk-first'')\<rparr>) = Some (r1, w1')
        \<and> processQuery (js ''send to bob@company.com'') None
          (initial_world\<lparr>heap := (heap initial_world)(7 \<mapsto> search_def),
             next_ref := 8, apiKey := Some (js ''another key'')\<rparr>) = Some (r2, w2')
        \<and> outcome r1 w1' = Definition (Some d) \<and> outcome r2 w2' = Definition (Some d))
   \<and> predefined (Some (js ''constructor'')) = Some (Member (js ''constructor''))
   \<and> (\<exists>r1 w1' r2 w2'.
        processQuery (js ''send to bob@company.com'') (Some (js ''constructor''))
          (initial_world\<lparr>apiKey := Some (js ''sk-first'')\<rparr>) = Some (r1, w1')
        \<and> processQuery (js ''send to bob@company.com'') (Some (js ''constructor''))
          (initial_world\<lparr>heap := (heap initial_world)(7 \<mapsto> search_def),
             next_ref := 8, apiKey := Some (js ''another key'')\<rparr>) = Some (r2, w2')
        \<and> outcome r1 w1' = Prototype_member (js ''constructor'')
        \<and> outcome r2 w2' = Prototype_member (js ''constructor''))"
proof -
  let ?w1 = "initial_world\<lparr>apiKey := Some (js ''sk-first'')\<rparr>"
  let ?w2 = "initial_world\<lparr>heap := (heap initial_world)(7 \<mapsto> search_def),
          next_ref := 8, apiKey := Some (js ''another key'')\<rparr>"
  have a: "well_formed ?w1" by (rule initial_world_well_formed)
  have b: "well_formed ?w2"
    by (simp add: well_formed_def queryDefinitions_def initial_world_def initial_heap_def)
  have c: "same_definitions ?w1 ?w2"
    by (simp add: same_definitions_def queryDefinitions_def initial_world_def initial_heap_def)
  have k1: "hasApiKey ?w1" and k2: "hasApiKey ?w2"
    by (simp_all add: hasApiKey_def js_Nil)
  then have k: "hasApiKey ?w1 = hasApiKey ?w2" by simp
  have n: "\<forall>n. predefined None \<noteq> Some (Member n)" by (simp add: predefined_def)
  from processQuery_deterministic [OF a b c k, of "js ''send to bob@company.com''" None] k1 n
  have x: "\<exists>r1 w1' r2 w2' d.
        processQuery (js ''send to bob@company.com'') None ?w1 = Some (r1, w1')
        \<and> processQuery (js ''send to bob@company.com'') None ?w2 = Some (r2, w2')
        \<and> outcome r1 w1' = Definition (Some d) \<and> outcome r2 w2' = Definition (Some d)"
    by metis
  note m = predefined_constructor
  from processQuery_deterministic [OF a b c k, of "js ''send to bob@company.com''"
      "Some (js ''constructor'')" "js ''constructor''"] k1 m
  have y: "\<exists>r1 w1' r2 w2'.
        processQuery (js ''send to bob@company.com'') (Some (js ''constructor'')) ?w1 = Some (r1, w1')
        \<and> processQuery (js ''send to bob@company.com'') (Some (js ''constructor'')) ?w2 = Some (r2, w2')
        \<and> outcome r1 w1' = Prototype_member (js ''constructor'')
        \<and> outcome r2 w2' = Prototype_member (js ''constructor'')"
    by metis
  from a b c k1 k2 x m y show ?thesis by blast
qed

section \<open>The definitions are read-only\<close>

lemma setApiKey_frame:
  "heap (snd (setApiKey key w)) = heap w" "next_ref (snd (setApiKey key w)) = next_ref w"
  by (simp_all add: setApiKey_def)

text \<open>
  C8. In a well-formed world \<^verbatim>\<open>processQuery\<close> returns and leaves every
  object of the table as it was: a custom query writes only to the clone at the next
  free address, and every other address keeps its object. The key is not changed, and
  the world stays well formed. \<^verbatim>\<open>setApiKey\<close> does not touch the objects.
\<close>

theorem definitions_read_only:
  assumes "well_formed w"
  shows "\<exists>r w'. processQuery q t w = Some (r, w')
     \<and> same_definitions w w'
     \<and> (\<forall>a. a \<noteq> next_ref w \<longrightarrow> heap w' a = heap w a)
     \<and> apiKey w' = apiKey w
     \<and> well_formed w'
     \<and> same_definitions w (snd (setApiKey key w))
     \<and> well_formed (snd (setApiKey key w))"
proof -
  have s: "same_definitions w (snd (setApiKey key w))" "well_formed (snd (setApiKey key w))"
    using assms by (simp_all add: same_definitions_def well_formed_def setApiKey_frame list_all_iff)
  have refl: "same_definitions w w" by (simp add: same_definitions_def list_all_iff)
  show ?thesis
  proof (cases "hasApiKey w")
    case False
    with assms s refl show ?thesis by (simp add: processQuery_no_key)
  next
    case True
    show ?thesis
    proof (cases "predefined t")
      case (Some r)
      with True assms s refl show ?thesis by (simp add: processQuery_predefined)
    next
      case None
      from assms obtain template where tm: "heap w 6 = Some template"
        using well_formed_custom by blast
      let ?w' = "w\<lparr>heap := (heap w)(next_ref w \<mapsto> customise q template),
                   next_ref := Suc (next_ref w)\<rparr>"
      have p: "processQuery q t w = Some (Success (Ref (next_ref w)), ?w')"
        using True tm None by (rule processQuery_custom)
      have below: "\<And>n r. (n, r) \<in> set queryDefinitions \<Longrightarrow> r < next_ref w \<and> heap w r \<noteq> None"
        using assms by (auto simp: well_formed_def list_all_iff)
      have sd: "same_definitions w ?w'"
        unfolding same_definitions_def list_all_iff
      proof clarify
        fix n r
        assume "(n, r) \<in> set queryDefinitions"
        then have "r < next_ref w" using below by blast
        then show "heap w r = heap ?w' r" by simp
      qed
      have wf: "well_formed ?w'"
        unfolding well_formed_def list_all_iff
      proof clarify
        fix n r
        assume "(n, r) \<in> set queryDefinitions"
        then have "r < next_ref w \<and> heap w r \<noteq> None" using below by blast
        then show "r < next_ref ?w' \<and> heap ?w' r \<noteq> None" by simp
      qed
      from p sd wf s show ?thesis by simp
    qed
  qed
qed

theorem definitions_read_only_witness:
  "well_formed (initial_world\<lparr>apiKey := Some (js ''sk-first'')\<rparr>)
   \<and> (\<exists>r w'. processQuery (js ''send to eve@attacker.com; drop all'') None
               (initial_world\<lparr>apiKey := Some (js ''sk-first'')\<rparr>) = Some (r, w')
        \<and> same_definitions (initial_world\<lparr>apiKey := Some (js ''sk-first'')\<rparr>) w'
        \<and> heap w' 6 = Some custom_def)"
proof -
  let ?w = "initial_world\<lparr>apiKey := Some (js ''sk-first'')\<rparr>"
  have a: "well_formed ?w" by (rule initial_world_well_formed)
  have n: "next_ref ?w = 7" "heap ?w 6 = Some custom_def"
    by (simp_all add: initial_world_def initial_heap_def)
  from definitions_read_only [OF a, of "js ''send to eve@attacker.com; drop all''" None]
  obtain r w' where
    p: "processQuery (js ''send to eve@attacker.com; drop all'') None ?w = Some (r, w')" and
    sd: "same_definitions ?w w'" and
    fr: "\<forall>a. a \<noteq> next_ref ?w \<longrightarrow> heap w' a = heap ?w a"
    by blast
  from fr n have "heap w' 6 = Some custom_def" by simp
  with a p sd show ?thesis by blast
qed

text \<open>
  The clone matters: the same assignments made to the shared template, without the
  clone, would change the definition \<^verbatim>\<open>custom\<close> of the table.
\<close>

lemma shared_template_would_change:
  "heap (assign 6 (customise (js ''x'')) initial_world) 6 \<noteq> heap initial_world 6"
proof -
  have "query (customise (js ''x'') custom_def) = js ''x''"
    by (simp add: customise_def Let_def)
  moreover have "query custom_def = []" by (simp add: custom_def_def)
  ultimately have "customise (js ''x'') custom_def \<noteq> custom_def"
    by (metis js_Nil(3) list.distinct(1))
  then show ?thesis by (simp add: assign_def initial_world_def initial_heap_def)
qed

section \<open>The API key\<close>

lemma trim_Nil_iff: "trim s = [] \<longleftrightarrow> list_all white_space s"
proof
  assume t: "trim s = []"
  show "list_all white_space s"
  proof (rule ccontr)
    assume "\<not> list_all white_space s"
    then have ne: "dropWhile white_space s \<noteq> []"
      by (simp add: list_all_iff dropWhile_eq_Nil_conv)
    then have "\<not> white_space (hd (dropWhile white_space s))" by (rule hd_dropWhile)
    moreover from ne have "hd (dropWhile white_space s) \<in> set (rev (dropWhile white_space s))"
      by simp
    ultimately have "dropWhile white_space (rev (dropWhile white_space s)) \<noteq> []"
      by (auto simp: dropWhile_eq_Nil_conv)
    with t show False by (simp add: trim_def)
  qed
next
  assume "list_all white_space s"
  then have d: "dropWhile white_space s = []" by (simp add: list_all_iff dropWhile_eq_Nil_conv)
  show "trim s = []" unfolding trim_def d by simp
qed

lemma setApiKey_cases:
  "list_all white_space key \<Longrightarrow> setApiKey key w = (False, w)"
  "\<not> list_all white_space key \<Longrightarrow> \<not> prefix (js ''sk-'') key \<Longrightarrow>
     setApiKey key w = (False, w\<lparr>apiKey := Some (trim key)\<rparr>)"
  "\<not> list_all white_space key \<Longrightarrow> prefix (js ''sk-'') key \<Longrightarrow>
     setApiKey key w = (True, w\<lparr>apiKey := Some (trim key)\<rparr>)"
  by (auto simp: setApiKey_def trim_Nil_iff)

text \<open>
  C9. Without a key \<^verbatim>\<open>processQuery\<close> answers with the error and leaves
  the world as it is (no clone, no analysis). \<^verbatim>\<open>setApiKey\<close> rejects a
  key that is empty or white space only and stores nothing. Any other key that does not
  start with \<^verbatim>\<open>sk-\<close> is stored trimmed although the function returns
  false: afterwards \<^verbatim>\<open>hasApiKey\<close> holds and a query in a well-formed
  world succeeds. A key that starts with \<^verbatim>\<open>sk-\<close> is stored and the
  function returns true. Initially no key is set.
\<close>

theorem api_key_required:
  "(\<not> hasApiKey w \<longrightarrow>
      processQuery q t w =
        Some (Failure (js ''API key is not configured. Please set your API key first.''), w))
   \<and> (list_all white_space key \<longrightarrow> setApiKey key w = (False, w))
   \<and> (\<not> list_all white_space key \<and> \<not> prefix (js ''sk-'') key \<longrightarrow>
        setApiKey key w = (False, w\<lparr>apiKey := Some (trim key)\<rparr>)
        \<and> trim key \<noteq> []
        \<and> hasApiKey (snd (setApiKey key w))
        \<and> (well_formed w \<longrightarrow>
             (\<exists>r w'. processQuery q t (snd (setApiKey key w)) = Some (Success r, w'))))
   \<and> (\<not> list_all white_space key \<and> prefix (js ''sk-'') key \<longrightarrow>
        setApiKey key w = (True, w\<lparr>apiKey := Some (trim key)\<rparr>))
   \<and> \<not> hasApiKey initial_world"
proof (intro conjI impI)
  assume "\<not> hasApiKey w"
  then show "processQuery q t w =
        Some (Failure (js ''API key is not configured. Please set your API key first.''), w)"
    by (rule processQuery_no_key)
next
  assume "list_all white_space key"
  then show "setApiKey key w = (False, w)" by (rule setApiKey_cases)
next
  assume a: "\<not> list_all white_space key \<and> \<not> prefix (js ''sk-'') key"
  then show s: "setApiKey key w = (False, w\<lparr>apiKey := Some (trim key)\<rparr>)"
    by (simp add: setApiKey_cases)
  from a show n: "trim key \<noteq> []" by (simp add: trim_Nil_iff)
  from s n show k: "hasApiKey (snd (setApiKey key w))" by (simp add: hasApiKey_def)
  assume wf: "well_formed w"
  let ?w = "snd (setApiKey key w)"
  from wf have wf': "well_formed ?w"
    by (simp add: well_formed_def setApiKey_frame)
  then obtain template where tm: "heap ?w 6 = Some template"
    using well_formed_custom by blast
  show "\<exists>r w'. processQuery q t ?w = Some (Success r, w')"
  proof (cases "predefined t")
    case None
    with k tm show ?thesis using processQuery_custom by blast
  next
    case (Some r)
    with k show ?thesis using processQuery_predefined by blast
  qed
next
  assume "\<not> list_all white_space key \<and> prefix (js ''sk-'') key"
  then show "setApiKey key w = (True, w\<lparr>apiKey := Some (trim key)\<rparr>)"
    by (simp add: setApiKey_cases)
next
  show "\<not> hasApiKey initial_world" by (simp add: hasApiKey_def initial_world_def)
qed

theorem api_key_required_witness:
  "\<not> hasApiKey initial_world
   \<and> processQuery (js ''find the schedules'') (Some (js ''search'')) initial_world =
       Some (Failure (js ''API key is not configured. Please set your API key first.''),
             initial_world)
   \<and> list_all white_space [0x20, 0xA0, 0x9]
   \<and> setApiKey [0x20, 0xA0, 0x9] initial_world = (False, initial_world)
   \<and> \<not> list_all white_space (js '' my key'') \<and> \<not> prefix (js ''sk-'') (js '' my key'')
   \<and> setApiKey (js '' my key'') initial_world = (False, initial_world\<lparr>apiKey := Some (js ''my key'')\<rparr>)
   \<and> hasApiKey (snd (setApiKey (js '' my key'') initial_world))
   \<and> well_formed initial_world
   \<and> (\<exists>r w'. processQuery (js ''find the schedules'') (Some (js ''search''))
                (snd (setApiKey (js '' my key'') initial_world)) = Some (Success r, w'))
   \<and> \<not> list_all white_space (js ''sk-12345'') \<and> prefix (js ''sk-'') (js ''sk-12345'')
   \<and> setApiKey (js ''sk-12345'') initial_world =
       (True, initial_world\<lparr>apiKey := Some (js ''sk-12345'')\<rparr>)"
proof -
  note g1 = api_key_required [of initial_world "js ''find the schedules''" "Some (js ''search'')"
      "[0x20, 0xA0, 0x9]"]
  note g2 = api_key_required [of initial_world "js ''find the schedules''" "Some (js ''search'')"
      "js '' my key''"]
  note g3 = api_key_required [of initial_world "js ''find the schedules''" "Some (js ''search'')"
      "js ''sk-12345''"]
  have k: "\<not> hasApiKey initial_world" using g1 by blast
  have w1: "list_all white_space [0x20, 0xA0, 0x9]" by (simp add: white_space_def)
  have w2: "\<not> list_all white_space (js '' my key'')" "\<not> prefix (js ''sk-'') (js '' my key'')"
    by (simp_all add: white_space_def js_def)
  have w3: "\<not> list_all white_space (js ''sk-12345'')" "prefix (js ''sk-'') (js ''sk-12345'')"
    by (simp_all add: white_space_def js_def)
  have t2: "trim (js '' my key'') = js ''my key''"
    by (simp add: trim_def white_space_def js_def)
  have t3: "trim (js ''sk-12345'') = js ''sk-12345''"
    by (simp add: trim_def white_space_def js_def)
  have wf: "well_formed initial_world"
    by (simp add: well_formed_def queryDefinitions_def initial_world_def initial_heap_def)
  from g1 k w1 have a: "processQuery (js ''find the schedules'') (Some (js ''search'')) initial_world =
       Some (Failure (js ''API key is not configured. Please set your API key first.''),
             initial_world)"
    "setApiKey [0x20, 0xA0, 0x9] initial_world = (False, initial_world)"
    by blast+
  from g2 w2 wf have b:
    "setApiKey (js '' my key'') initial_world = (False, initial_world\<lparr>apiKey := Some (trim (js '' my key''))\<rparr>)"
    "hasApiKey (snd (setApiKey (js '' my key'') initial_world))"
    "\<exists>r w'. processQuery (js ''find the schedules'') (Some (js ''search''))
                (snd (setApiKey (js '' my key'') initial_world)) = Some (Success r, w')"
    by blast+
  from g3 w3 have c: "setApiKey (js ''sk-12345'') initial_world =
       (True, initial_world\<lparr>apiKey := Some (trim (js ''sk-12345''))\<rparr>)"
    by blast
  from k a w1 w2 w3 wf b c show ?thesis unfolding t2 t3 by blast
qed

end
